theory Spec2Isabelle
  imports Main
begin

section \<open>Python values used by the orchestrator\<close>

text \<open>
  The source is \<^verbatim>\<open>sharq/queue.py\<close>, the class \<^verbatim>\<open>SharQ\<close>. Its public methods take
  untyped Python arguments. Identifiers and intervals are modelled by \<open>pyval\<close>: the
  value \<^verbatim>\<open>None\<close>, an integer, or a string. A payload is an opaque client value of a type
  \<open>'p\<close> that only the codec looks into.
\<close>

datatype pyval = PyNone | PyInt int | PyStr string

text \<open>Truthiness, as \<^verbatim>\<open>not x\<close> and \<^verbatim>\<open>x or y\<close> read it.\<close>

fun py_truthy :: "pyval \<Rightarrow> bool" where
  "py_truthy PyNone = False"
| "py_truthy (PyInt i) = (i \<noteq> 0)"
| "py_truthy (PyStr s) = (s \<noteq> [])"

text \<open>\<^verbatim>\<open>x or y\<close>: the first operand when it is truthy, the second otherwise.\<close>

definition py_or :: "pyval \<Rightarrow> pyval \<Rightarrow> pyval" where
  "py_or x y = (if py_truthy x then x else y)"

text \<open>The decimal digits of a natural number, most significant first.\<close>

fun digits_of :: "nat \<Rightarrow> string" where
  "digits_of n =
     (if n < 10 then [char_of (48 + n)]
      else digits_of (n div 10) @ [char_of (48 + n mod 10)])"

declare digits_of.simps [simp del]

text \<open>\<^verbatim>\<open>str(x)\<close>, which is also what the format directive \<^verbatim>\<open>%s\<close> inserts.\<close>

fun py_str :: "pyval \<Rightarrow> string" where
  "py_str PyNone = ''None''"
| "py_str (PyInt i) = (if i < 0 then CHR ''-'' # digits_of (nat (- i)) else digits_of (nat i))"
| "py_str (PyStr s) = s"

text \<open>
  Exceptions of the source. \<open>BadArgumentException\<close> carries its message. The other
  three are the built-in exceptions that sequence unpacking, indexing and \<^verbatim>\<open>int(...)\<close>
  raise; the source does not catch them.
\<close>

datatype error = BadArgumentException string | ValueError | IndexError | TypeError

text \<open>Sequencing of computations that may raise.\<close>

definition bind_err :: "error + 'a \<Rightarrow> ('a \<Rightarrow> error + 'b) \<Rightarrow> error + 'b" where
  "bind_err m f = (case m of Inl e \<Rightarrow> Inl e | Inr x \<Rightarrow> f x)"

text \<open>\<^verbatim>\<open>xs[i]\<close> for a non-negative index: out of range raises \<^verbatim>\<open>IndexError\<close>.\<close>

definition py_getitem :: "'a list \<Rightarrow> nat \<Rightarrow> error + 'a" where
  "py_getitem xs i = (if i < length xs then Inr (xs ! i) else Inl IndexError)"

text \<open>
  A slice bound, as Python normalises it against a sequence of length \<open>n\<close>: a negative
  bound counts from the end, and the result is clamped to \<open>0..n\<close>.
\<close>

definition py_slice_bound :: "nat \<Rightarrow> int \<Rightarrow> nat" where
  "py_slice_bound n i =
     (if i < 0 then nat (max 0 (int n + i)) else min n (nat i))"

text \<open>\<^verbatim>\<open>xs[i:j]\<close>.\<close>

definition py_slice :: "'a list \<Rightarrow> int \<Rightarrow> int \<Rightarrow> 'a list" where
  "py_slice xs i j =
     (let a = py_slice_bound (length xs) i; b = py_slice_bound (length xs) j
      in take (b - a) (drop a xs))"

text \<open>\<^verbatim>\<open>s.split(':')[0]\<close>: the part of \<open>s\<close> before its first colon, all of \<open>s\<close> when it has none.\<close>

definition split_colon_first :: "string \<Rightarrow> string" where
  "split_colon_first s = takeWhile (\<lambda>c. c \<noteq> CHR '':'') s"

text \<open>
  A Python \<^verbatim>\<open>set\<close> built from a sequence holds each member once. It is represented by a
  list without duplicates; the order in which Python iterates over a set, or lists it
  with \<^verbatim>\<open>list(...)\<close>, is not specified, and the model fixes one order.
\<close>

definition py_set :: "'a list \<Rightarrow> 'a list" where
  "py_set xs = remdups xs"

text \<open>\<^verbatim>\<open>a | b\<close> on two sets.\<close>

definition py_set_union :: "'a list \<Rightarrow> 'a list \<Rightarrow> 'a list" where
  "py_set_union a b = remdups (a @ b)"

text \<open>\<^verbatim>\<open>xrange(0, n, 2)\<close>: the even indices below \<open>n\<close>.\<close>

definition xrange_step2 :: "nat \<Rightarrow> nat list" where
  "xrange_step2 n = map (\<lambda>k. 2 * k) [0 ..< (n + 1) div 2]"

subsection \<open>\<^verbatim>\<open>int(...)\<close> on a reply element\<close>

definition is_space :: "char \<Rightarrow> bool" where
  "is_space c = (c \<in> set [CHR '' '', CHR 0x09, CHR 0x0A, CHR 0x0B, CHR 0x0C, CHR 0x0D])"

definition is_digit :: "char \<Rightarrow> bool" where
  "is_digit c = (48 \<le> (of_char c :: nat) \<and> (of_char c :: nat) \<le> 57)"

definition nat_of_digits :: "string \<Rightarrow> nat" where
  "nat_of_digits ds = foldl (\<lambda>a c. 10 * a + ((of_char c :: nat) - 48)) 0 ds"

definition strip_spaces :: "string \<Rightarrow> string" where
  "strip_spaces s = rev (dropWhile is_space (rev (dropWhile is_space s)))"

text \<open>
  \<^verbatim>\<open>int(s)\<close> on a string: surrounding white space is dropped, one sign is allowed, and
  the rest must be a non-empty run of decimal digits; anything else raises
  \<^verbatim>\<open>ValueError\<close>.
\<close>

definition int_of_digits :: "string \<Rightarrow> error + int" where
  "int_of_digits ds =
     (if ds \<noteq> [] \<and> list_all is_digit ds then Inr (int (nat_of_digits ds)) else Inl ValueError)"

definition py_int_of_str :: "string \<Rightarrow> error + int" where
  "py_int_of_str s =
     (case strip_spaces s of
        [] \<Rightarrow> Inl ValueError
      | c # cs \<Rightarrow>
          if c = CHR ''-'' then bind_err (int_of_digits cs) (\<lambda>n. Inr (- n))
          else if c = CHR ''+'' then int_of_digits cs
          else int_of_digits (c # cs))"

fun py_int :: "pyval \<Rightarrow> error + int" where
  "py_int PyNone = Inl TypeError"
| "py_int (PyInt i) = Inr i"
| "py_int (PyStr s) = py_int_of_str s"

section \<open>Replies of the public operations\<close>

text \<open>
  Every public operation returns a dictionary keyed by field name. Its values are
  strings, integers, lists of strings, dictionaries of counts, or a deserialized
  payload.
\<close>

datatype 'p rval =
    RStr string
  | RInt int
  | RList "string list"
  | RDict "string \<rightharpoonup> int"
  | RPayload 'p

type_synonym 'p response = "string \<rightharpoonup> 'p rval"

section \<open>The backing store, the clock and the record of interactions\<close>

text \<open>The six Lua scripts that \<^verbatim>\<open>_load_lua_scripts\<close> registers.\<close>

datatype script = LuaEnqueue | LuaDequeue | LuaFinish | LuaInterval | LuaRequeue | LuaMetrics

text \<open>A command queued on a pipeline.\<close>

datatype command = ZRange string int int

text \<open>
  What the object does to the outside world, in the order in which it does it: a clock
  reading (\<^verbatim>\<open>generate_epoch()\<close>, with the value read), a script invocation with its
  \<^verbatim>\<open>keys\<close> and \<^verbatim>\<open>args\<close>, a direct \<^verbatim>\<open>SMEMBERS\<close> or \<^verbatim>\<open>LLEN\<close>, and a pipeline executed as a
  single transaction.
\<close>

datatype event =
    Epoch int
  | EvalScript script "pyval list" "pyval list"
  | SMembers string
  | LLen string
  | Transaction "command list"

text \<open>
  The state a call runs in: the contents of the backing store, the number of clock
  readings taken so far, and the events so far. The events are not part of the
  program's state; they record the interactions so that claims about them can be
  stated.
\<close>

record 'st world =
  store :: 'st
  ticks :: nat
  trace :: "event list"

text \<open>
  The collaborators of \<^verbatim>\<open>SharQ\<close> whose code is outside \<^verbatim>\<open>queue.py\<close>, taken as
  parameters: the two configuration values read by \<^verbatim>\<open>_initialize\<close>, the helpers
  imported from \<^verbatim>\<open>sharq.utils\<close>, the registered Lua scripts as functions on the store,
  and the three Redis read commands the object issues directly.

  \<^item> \<open>serialize_payload\<close> returns \<open>Inl m\<close> where the helper raises \<^verbatim>\<open>TypeError\<close> with
    message \<open>m\<close>, the one exception \<^verbatim>\<open>enqueue\<close> catches.
  \<^item> \<open>generate_epoch n\<close> is the value of the \<open>n\<close>-th clock reading.
  \<^item> A script is a total function on the store: a failure of the store itself is not
    modelled.
\<close>

record ('st, 'p) env =
  key_prefix :: string
  job_expire_interval :: int
  is_valid_identifier :: "pyval \<Rightarrow> bool"
  is_valid_interval :: "pyval \<Rightarrow> bool"
  serialize_payload :: "'p \<Rightarrow> string + string"
  deserialize_payload :: "string \<Rightarrow> 'p"
  generate_epoch :: "nat \<Rightarrow> int"
  lua_enqueue :: "pyval list \<Rightarrow> pyval list \<Rightarrow> 'st \<Rightarrow> 'st"
  lua_dequeue :: "pyval list \<Rightarrow> pyval list \<Rightarrow> 'st \<Rightarrow> string list \<times> 'st"
  lua_finish :: "pyval list \<Rightarrow> pyval list \<Rightarrow> 'st \<Rightarrow> int \<times> 'st"
  lua_interval :: "pyval list \<Rightarrow> pyval list \<Rightarrow> 'st \<Rightarrow> int \<times> 'st"
  lua_requeue :: "pyval list \<Rightarrow> pyval list \<Rightarrow> 'st \<Rightarrow> 'st"
  lua_metrics :: "pyval list \<Rightarrow> pyval list \<Rightarrow> 'st \<Rightarrow> pyval list list \<times> 'st"
  smembers :: "string \<Rightarrow> 'st \<Rightarrow> string list"
  zrange :: "string \<Rightarrow> int \<Rightarrow> int \<Rightarrow> 'st \<Rightarrow> string list"
  llen :: "string \<Rightarrow> 'st \<Rightarrow> int"

text \<open>\<^verbatim>\<open>str(generate_epoch())\<close>: one clock reading, as a decimal string.\<close>

definition read_timestamp :: "('st, 'p) env \<Rightarrow> 'st world \<Rightarrow> string \<times> 'st world" where
  "read_timestamp env w =
     (py_str (PyInt (generate_epoch env (ticks w))),
      w\<lparr>ticks := Suc (ticks w), trace := trace w @ [Epoch (generate_epoch env (ticks w))]\<rparr>)"

text \<open>One invocation of a registered script: it runs on the store and is recorded.\<close>

definition invoke ::
  "script \<Rightarrow> pyval list \<Rightarrow> pyval list \<Rightarrow> ('st \<Rightarrow> 'r \<times> 'st) \<Rightarrow> 'st world \<Rightarrow> 'r \<times> 'st world" where
  "invoke sc keys args run w =
     (fst (run (store w)),
      w\<lparr>store := snd (run (store w)), trace := trace w @ [EvalScript sc keys args]\<rparr>)"

text \<open>A direct read of the store: it leaves the store as it is and is recorded.\<close>

definition redis_read :: "event \<Rightarrow> ('st \<Rightarrow> 'r) \<Rightarrow> 'st world \<Rightarrow> 'r \<times> 'st world" where
  "redis_read ev rd w = (rd (store w), w\<lparr>trace := trace w @ [ev]\<rparr>)"

text \<open>\<^verbatim>\<open>'"%s"' % serialized_payload\<close>: the token between two double quotes.\<close>

definition quote_wrap :: "string \<Rightarrow> string" where
  "quote_wrap s = [CHR 0x22] @ s @ [CHR 0x22]"

text \<open>
  An optional parameter of a method: \<open>None\<close> when the caller omits the argument, so
  that the default of the signature applies.
\<close>

definition arg_or_default :: "pyval option \<Rightarrow> pyval \<Rightarrow> pyval" where
  "arg_or_default a d = (case a of None \<Rightarrow> d | Some v \<Rightarrow> v)"

section \<open>The public operations\<close>

subsection \<open>\<^verbatim>\<open>SharQ.enqueue\<close>\<close>

definition enqueue ::
  "('st, 'p) env \<Rightarrow> 'p \<Rightarrow> pyval \<Rightarrow> pyval \<Rightarrow> pyval \<Rightarrow> pyval option \<Rightarrow> 'st world
     \<Rightarrow> (error + 'p response) \<times> 'st world" where
  "enqueue env payload interval job_id queue_id queue_type_arg w =
     (let queue_type = arg_or_default queue_type_arg (PyStr ''default'') in
      if \<not> is_valid_interval env interval then
        (Inl (BadArgumentException ''`interval` has an invalid value.''), w)
      else if \<not> is_valid_identifier env job_id then
        (Inl (BadArgumentException ''`job_id` has an invalid value.''), w)
      else if \<not> is_valid_identifier env queue_id then
        (Inl (BadArgumentException ''`queue_id` has an invalid value.''), w)
      else if \<not> is_valid_identifier env queue_type then
        (Inl (BadArgumentException ''`queue_type` has an invalid value.''), w)
      else
        case serialize_payload env payload of
          Inl message \<Rightarrow> (Inl (BadArgumentException message), w)
        | Inr serialized_payload \<Rightarrow>
            let (timestamp, w1) = read_timestamp env w;
                keys = [PyStr (key_prefix env), queue_type];
                args = [PyStr timestamp, queue_id, job_id,
                        PyStr (quote_wrap serialized_payload), interval];
                (u, w2) = invoke LuaEnqueue keys args
                            (\<lambda>s. ((), lua_enqueue env keys args s)) w1
            in (Inr [''status'' \<mapsto> RStr ''queued''], w2))"

subsection \<open>\<^verbatim>\<open>SharQ.dequeue\<close>\<close>

text \<open>
  The reply of the script is a sequence. Fewer than three elements is the failure
  reply; \<^verbatim>\<open>queue_id, job_id, payload = dequeue_response\<close> then unpacks exactly three
  elements and raises \<^verbatim>\<open>ValueError\<close> on a longer reply.
\<close>

definition dequeue ::
  "('st, 'p) env \<Rightarrow> pyval option \<Rightarrow> 'st world \<Rightarrow> (error + 'p response) \<times> 'st world" where
  "dequeue env queue_type_arg w =
     (let queue_type = arg_or_default queue_type_arg (PyStr ''default'') in
      if \<not> is_valid_identifier env queue_type then
        (Inl (BadArgumentException ''`queue_type` has an invalid value.''), w)
      else
        let (timestamp, w1) = read_timestamp env w;
            keys = [PyStr (key_prefix env), queue_type];
            args = [PyStr timestamp, PyInt (job_expire_interval env)];
            (dequeue_response, w2) = invoke LuaDequeue keys args (lua_dequeue env keys args) w1
        in if length dequeue_response < 3 then
             (Inr [''status'' \<mapsto> RStr ''failure''], w2)
           else
             case dequeue_response of
               [queue_id, job_id, payload] \<Rightarrow>
                 (Inr [''status'' \<mapsto> RStr ''success'',
                       ''queue_id'' \<mapsto> RStr queue_id,
                       ''job_id'' \<mapsto> RStr job_id,
                       ''payload'' \<mapsto>
                          RPayload (deserialize_payload env (py_slice payload 1 (- 1)))], w2)
             | _ \<Rightarrow> (Inl ValueError, w2))"

subsection \<open>\<^verbatim>\<open>SharQ.finish\<close>\<close>

definition finish ::
  "('st, 'p) env \<Rightarrow> pyval \<Rightarrow> pyval \<Rightarrow> pyval option \<Rightarrow> 'st world
     \<Rightarrow> (error + 'p response) \<times> 'st world" where
  "finish env job_id queue_id queue_type_arg w =
     (let queue_type = arg_or_default queue_type_arg (PyStr ''default'') in
      if \<not> is_valid_identifier env job_id then
        (Inl (BadArgumentException ''`job_id` has an invalid value.''), w)
      else if \<not> is_valid_identifier env queue_id then
        (Inl (BadArgumentException ''`queue_id` has an invalid value.''), w)
      else if \<not> is_valid_identifier env queue_type then
        (Inl (BadArgumentException ''`queue_type` has an invalid value.''), w)
      else
        let keys = [PyStr (key_prefix env), queue_type];
            args = [queue_id, job_id];
            response = [''status'' \<mapsto> RStr ''success''];
            (finish_response, w1) = invoke LuaFinish keys args (lua_finish env keys args) w
        in if finish_response = 0 then
             (Inr (response(''status'' \<mapsto> RStr ''failure'')), w1)
           else (Inr response, w1))"

subsection \<open>\<^verbatim>\<open>SharQ.interval\<close>\<close>

definition interval ::
  "('st, 'p) env \<Rightarrow> pyval \<Rightarrow> pyval \<Rightarrow> pyval option \<Rightarrow> 'st world
     \<Rightarrow> (error + 'p response) \<times> 'st world" where
  "interval env interval_ms queue_id queue_type_arg w =
     (let queue_type = arg_or_default queue_type_arg (PyStr ''default'') in
      if \<not> is_valid_interval env interval_ms then
        (Inl (BadArgumentException ''`interval` has an invalid value.''), w)
      else if \<not> is_valid_identifier env queue_id then
        (Inl (BadArgumentException ''`queue_id` has an invalid value.''), w)
      else if \<not> is_valid_identifier env queue_type then
        (Inl (BadArgumentException ''`queue_type` has an invalid value.''), w)
      else
        let interval_hmap_key = key_prefix env @ '':interval'';
            interval_queue_key = py_str queue_type @ '':'' @ py_str queue_id;
            keys = [PyStr interval_hmap_key, PyStr interval_queue_key];
            args = [interval_ms];
            (interval_response, w1) =
               invoke LuaInterval keys args (lua_interval env keys args) w
        in if interval_response = 0 then
             (Inr [''status'' \<mapsto> RStr ''failure''], w1)
           else (Inr [''status'' \<mapsto> RStr ''success''], w1))"

subsection \<open>\<^verbatim>\<open>SharQ.requeue\<close>\<close>

text \<open>
  The body of the \<^verbatim>\<open>for\<close> loop, once per queue type of the enumerated set: one
  invocation of the requeue script, whose reply is dropped.
\<close>

fun requeue_loop ::
  "('st, 'p) env \<Rightarrow> string \<Rightarrow> string list \<Rightarrow> 'st world \<Rightarrow> 'st world" where
  "requeue_loop env timestamp [] w = w"
| "requeue_loop env timestamp (queue_type # rest) w =
     (let keys = [PyStr (key_prefix env), PyStr queue_type];
          args = [PyStr timestamp];
          (u, w1) = invoke LuaRequeue keys args (\<lambda>s. ((), lua_requeue env keys args s)) w
      in requeue_loop env timestamp rest w1)"

text \<open>
  The method takes no argument besides the object and falls off its end, so the
  caller gets \<^verbatim>\<open>None\<close>.
\<close>

definition requeue :: "('st, 'p) env \<Rightarrow> 'st world \<Rightarrow> pyval \<times> 'st world" where
  "requeue env w =
     (let (timestamp, w1) = read_timestamp env w;
          (active_queue_type_list, w2) =
             redis_read (SMembers (key_prefix env @ '':active:queue_type''))
               (\<lambda>s. py_set (smembers env (key_prefix env @ '':active:queue_type'') s)) w1
      in (PyNone, requeue_loop env timestamp active_queue_type_list w2))"

subsection \<open>\<^verbatim>\<open>SharQ.metrics\<close>\<close>

text \<open>
  The loop that decodes the two flat replies of the metrics script,
  \<^verbatim>\<open>for i in xrange(0, len(enqueue_details), 2)\<close>. In each assignment the right-hand
  side is evaluated before the subscript of the target. An index out of range raises
  \<^verbatim>\<open>IndexError\<close>, a count that is no number raises \<^verbatim>\<open>ValueError\<close>.
\<close>

fun metrics_counts ::
  "pyval list \<Rightarrow> pyval list \<Rightarrow> nat list \<Rightarrow> (string \<rightharpoonup> int) \<times> (string \<rightharpoonup> int)
     \<Rightarrow> error + ((string \<rightharpoonup> int) \<times> (string \<rightharpoonup> int))" where
  "metrics_counts enqueue_details dequeue_details [] counts = Inr counts"
| "metrics_counts enqueue_details dequeue_details (i # rest) (enqueue_counts, dequeue_counts) =
     (case py_getitem enqueue_details (i + 1) of Inl e \<Rightarrow> Inl e | Inr e1 \<Rightarrow>
      case py_int (py_or e1 (PyInt 0)) of Inl e \<Rightarrow> Inl e | Inr ec \<Rightarrow>
      case py_getitem enqueue_details i of Inl e \<Rightarrow> Inl e | Inr e0 \<Rightarrow>
      case py_getitem dequeue_details (i + 1) of Inl e \<Rightarrow> Inl e | Inr d1 \<Rightarrow>
      case py_int (py_or d1 (PyInt 0)) of Inl e \<Rightarrow> Inl e | Inr dc \<Rightarrow>
      case py_getitem dequeue_details i of Inl e \<Rightarrow> Inl e | Inr d0 \<Rightarrow>
        metrics_counts enqueue_details dequeue_details rest
          (enqueue_counts(py_str e0 \<mapsto> ec), dequeue_counts(py_str d0 \<mapsto> dc)))"

text \<open>
  \<^verbatim>\<open>enqueue_details, dequeue_details = self._lua_metrics(...)\<close> followed by the loop:
  a reply that is not a pair raises \<^verbatim>\<open>ValueError\<close>.
\<close>

definition decode_metrics ::
  "pyval list list \<Rightarrow> error + ((string \<rightharpoonup> int) \<times> (string \<rightharpoonup> int))" where
  "decode_metrics reply =
     (case reply of
        [enqueue_details, dequeue_details] \<Rightarrow>
          metrics_counts enqueue_details dequeue_details
            (xrange_step2 (length enqueue_details)) (Map.empty, Map.empty)
      | _ \<Rightarrow> Inl ValueError)"

text \<open>The branch \<^verbatim>\<open>if not queue_type and not queue_id\<close>: global statistics.\<close>

definition metrics_global ::
  "('st, 'p) env \<Rightarrow> 'p response \<Rightarrow> 'st world \<Rightarrow> (error + 'p response) \<times> 'st world" where
  "metrics_global env response w =
     (let (active_queue_types, w1) =
             redis_read (SMembers (key_prefix env @ '':active:queue_type''))
               (\<lambda>s. py_set (smembers env (key_prefix env @ '':active:queue_type'') s)) w;
          (ready_queue_types, w2) =
             redis_read (SMembers (key_prefix env @ '':ready:queue_type''))
               (\<lambda>s. py_set (smembers env (key_prefix env @ '':ready:queue_type'') s)) w1;
          all_queue_types = py_set_union active_queue_types ready_queue_types;
          (timestamp, w3) = read_timestamp env w2;
          keys = [PyStr (key_prefix env)];
          args = [PyStr timestamp];
          (reply, w4) = invoke LuaMetrics keys args (lua_metrics env keys args) w3
      in case decode_metrics reply of
           Inl e \<Rightarrow> (Inl e, w4)
         | Inr (enqueue_counts, dequeue_counts) \<Rightarrow>
             (Inr (response(''status'' \<mapsto> RStr ''success'',
                            ''queue_types'' \<mapsto> RList all_queue_types,
                            ''enqueue_counts'' \<mapsto> RDict enqueue_counts,
                            ''dequeue_counts'' \<mapsto> RDict dequeue_counts)), w4))"

text \<open>
  The branch \<^verbatim>\<open>elif queue_type and not queue_id\<close>: the queue ids of one type. The two
  \<^verbatim>\<open>ZRANGE ... 0 -1\<close> commands are queued on one pipeline and executed together, so both
  read the same store.
\<close>

definition metrics_queue_type ::
  "('st, 'p) env \<Rightarrow> pyval \<Rightarrow> 'p response \<Rightarrow> 'st world \<Rightarrow> (error + 'p response) \<times> 'st world" where
  "metrics_queue_type env queue_type response w =
     (let ready_key = key_prefix env @ '':'' @ py_str queue_type;
          active_key = key_prefix env @ '':'' @ py_str queue_type @ '':active'';
          (replies, w1) =
             redis_read (Transaction [ZRange ready_key 0 (- 1), ZRange active_key 0 (- 1)])
               (\<lambda>s. (zrange env ready_key 0 (- 1) s, zrange env active_key 0 (- 1) s)) w;
          (ready_queues, active_queues) = replies;
          active_queue_ids = map split_colon_first active_queues;
          all_queue_set = py_set_union (py_set ready_queues) (py_set active_queue_ids)
      in (Inr (response(''status'' \<mapsto> RStr ''success'',
                        ''queue_ids'' \<mapsto> RList all_queue_set)), w1))"

text \<open>The branch \<^verbatim>\<open>elif queue_type and queue_id\<close>: the statistics of one queue.\<close>

definition metrics_queue ::
  "('st, 'p) env \<Rightarrow> pyval \<Rightarrow> pyval \<Rightarrow> 'p response \<Rightarrow> 'st world
     \<Rightarrow> (error + 'p response) \<times> 'st world" where
  "metrics_queue env queue_type queue_id response w =
     (let (active_queue_types, w1) =
             redis_read (SMembers (key_prefix env @ '':active:queue_type''))
               (\<lambda>s. py_set (smembers env (key_prefix env @ '':active:queue_type'') s)) w;
          (ready_queue_types, w2) =
             redis_read (SMembers (key_prefix env @ '':ready:queue_type''))
               (\<lambda>s. py_set (smembers env (key_prefix env @ '':ready:queue_type'') s)) w1;
          all_queue_types = py_set_union active_queue_types ready_queue_types;
          (timestamp, w3) = read_timestamp env w2;
          queue_key = key_prefix env @ '':'' @ py_str queue_type @ '':'' @ py_str queue_id;
          keys = [PyStr queue_key];
          args = [PyStr timestamp];
          (reply, w4) = invoke LuaMetrics keys args (lua_metrics env keys args) w3
      in case decode_metrics reply of
           Inl e \<Rightarrow> (Inl e, w4)
         | Inr (enqueue_counts, dequeue_counts) \<Rightarrow>
             let (queue_length, w5) = redis_read (LLen queue_key) (llen env queue_key) w4
             in (Inr (response(''status'' \<mapsto> RStr ''success'',
                               ''queue_length'' \<mapsto> RInt queue_length,
                               ''enqueue_counts'' \<mapsto> RDict enqueue_counts,
                               ''dequeue_counts'' \<mapsto> RDict dequeue_counts)), w5))"

text \<open>
  The method itself. Both parameters default to \<^verbatim>\<open>None\<close>. The two validity checks come
  first; the four branches then test the truthiness of the two arguments.
\<close>

definition metrics ::
  "('st, 'p) env \<Rightarrow> pyval option \<Rightarrow> pyval option \<Rightarrow> 'st world
     \<Rightarrow> (error + 'p response) \<times> 'st world" where
  "metrics env queue_type_arg queue_id_arg w =
     (let queue_type = arg_or_default queue_type_arg PyNone;
          queue_id = arg_or_default queue_id_arg PyNone in
      if queue_id \<noteq> PyNone \<and> \<not> is_valid_identifier env queue_id then
        (Inl (BadArgumentException ''`queue_id` has an invalid value.''), w)
      else if queue_type \<noteq> PyNone \<and> \<not> is_valid_identifier env queue_type then
        (Inl (BadArgumentException ''`queue_type` has an invalid value.''), w)
      else
        let response = [''status'' \<mapsto> RStr ''failure''] in
        if \<not> py_truthy queue_type \<and> \<not> py_truthy queue_id then
          metrics_global env response w
        else if py_truthy queue_type \<and> \<not> py_truthy queue_id then
          metrics_queue_type env queue_type response w
        else if py_truthy queue_type \<and> py_truthy queue_id then
          metrics_queue env queue_type queue_id response w
        else if \<not> py_truthy queue_type \<and> py_truthy queue_id then
          (Inl (BadArgumentException
                  ''`queue_id` should be accompanied by `queue_type`.''), w)
        else (Inr response, w))"

section \<open>Collaborators outside \<^verbatim>\<open>queue.py\<close>\<close>

subsection \<open>The validators\<close>

text \<open>
  Modelled from the spec: \<^verbatim>\<open>sharq.utils.is_valid_identifier\<close> is imported by
  \<^verbatim>\<open>queue.py\<close> and its code is not part of it. Section 4.1: an identifier is non-empty,
  over a limited character set (letters, digits, \<^verbatim>\<open>_\<close>, \<^verbatim>\<open>-\<close>), of bounded length. The
  bound is a parameter.
\<close>

definition identifier_char :: "char \<Rightarrow> bool" where
  "identifier_char c =
     (let n = (of_char c :: nat)
      in (65 \<le> n \<and> n \<le> 90) \<or> (97 \<le> n \<and> n \<le> 122) \<or> (48 \<le> n \<and> n \<le> 57)
         \<or> c = CHR ''_'' \<or> c = CHR ''-'')"

fun is_valid_identifier_spec :: "nat \<Rightarrow> pyval \<Rightarrow> bool" where
  "is_valid_identifier_spec max_length (PyStr s) =
     (s \<noteq> [] \<and> length s \<le> max_length \<and> list_all identifier_char s)"
| "is_valid_identifier_spec max_length PyNone = False"
| "is_valid_identifier_spec max_length (PyInt i) = False"

text \<open>
  Modelled from the spec: \<^verbatim>\<open>sharq.utils.is_valid_interval\<close> is imported by \<^verbatim>\<open>queue.py\<close>
  and its code is not part of it. Section 4.1: an interval is an integer, at least a
  configurable floor, at most \<open>2\<^sup>3\<^sup>1 - 1\<close>. The floor is a parameter.
\<close>

fun is_valid_interval_spec :: "int \<Rightarrow> pyval \<Rightarrow> bool" where
  "is_valid_interval_spec floor_ms (PyInt n) = (floor_ms \<le> n \<and> n \<le> 2147483647)"
| "is_valid_interval_spec floor_ms PyNone = False"
| "is_valid_interval_spec floor_ms (PyStr s) = False"

subsection \<open>An in-memory store and the finish script\<close>

text \<open>
  The part of a Redis database that the object and the scripts touch: sorted sets
  (members with their scores, kept in score order), hashes, sets and lists, each
  family indexed by key, and the integer counters with the time to live, in
  milliseconds, that was last set on each.
\<close>

record redis =
  zsets :: "string \<Rightarrow> (string \<times> int) list"
  hashes :: "string \<Rightarrow> (string \<times> string) list"
  sets :: "string \<Rightarrow> string list"
  lists :: "string \<Rightarrow> string list"
  counters :: "string \<Rightarrow> int"
  expires :: "string \<Rightarrow> int option"

text \<open>
  Modelled from the spec: \<^verbatim>\<open>scripts/lua/finish.lua\<close> is loaded by \<^verbatim>\<open>_load_lua_scripts\<close>
  and its code is not part of \<^verbatim>\<open>queue.py\<close>. Section 4.5.3, \<open>finish(P, T; Q, J)\<close>:
  \<^enum> remove \<open>"Q:J"\<close> from \<open>P:T:active\<close>; if it was not present, return \<open>0\<close>;
  \<^enum> delete \<open>P:payload["T:Q:J"]\<close>;
  \<^enum> if \<open>P:T:active\<close> is now empty, remove \<open>T\<close> from \<open>P:active:queue_type\<close>;
  and return \<open>1\<close>.
\<close>

definition finish_script :: "pyval list \<Rightarrow> pyval list \<Rightarrow> redis \<Rightarrow> int \<times> redis" where
  "finish_script keys args st =
     (case (keys, args) of
        ([p, t], [q, j]) \<Rightarrow>
          let active_key = py_str p @ '':'' @ py_str t @ '':active'';
              payload_key = py_str p @ '':payload'';
              registry_key = py_str p @ '':active:queue_type'';
              token = py_str q @ '':'' @ py_str j;
              payload_field = py_str t @ '':'' @ py_str q @ '':'' @ py_str j
          in if token \<notin> set (map fst (zsets st active_key)) then (0, st)
             else
               let st1 = st\<lparr>zsets := (zsets st)
                            (active_key := filter (\<lambda>m. fst m \<noteq> token) (zsets st active_key))\<rparr>;
                   st2 = st1\<lparr>hashes := (hashes st1)
                            (payload_key :=
                               filter (\<lambda>f. fst f \<noteq> payload_field) (hashes st1 payload_key))\<rparr>;
                   st3 = (if zsets st2 active_key = []
                          then st2\<lparr>sets := (sets st2)
                                 (registry_key := removeAll (py_str t) (sets st2 registry_key))\<rparr>
                          else st2)
               in (1, st3)
      | _ \<Rightarrow> (0, st))"

text \<open>
  The three read commands on the in-memory store. \<^verbatim>\<open>ZRANGE key start stop\<close> returns the
  members from rank \<open>start\<close> to rank \<open>stop\<close>, both included, a negative rank counting
  from the end.
\<close>

definition redis_smembers :: "string \<Rightarrow> redis \<Rightarrow> string list" where
  "redis_smembers k st = sets st k"

definition redis_zrange :: "string \<Rightarrow> int \<Rightarrow> int \<Rightarrow> redis \<Rightarrow> string list" where
  "redis_zrange k start stop st =
     (let members = map fst (zsets st k);
          n = int (length members);
          a = (if start < 0 then max 0 (n + start) else start);
          b = (if stop < 0 then n + stop else min stop (n - 1))
      in if b < a then [] else take (nat (b - a + 1)) (drop (nat a) members))"

definition redis_llen :: "string \<Rightarrow> redis \<Rightarrow> int" where
  "redis_llen k st = int (length (lists st k))"

subsection \<open>The write commands the scripts use\<close>

text \<open>\<^verbatim>\<open>HGET\<close> and \<^verbatim>\<open>HSET\<close> on a hash.\<close>

definition redis_hget :: "redis \<Rightarrow> string \<Rightarrow> string \<Rightarrow> string option" where
  "redis_hget st k field = map_of (hashes st k) field"

definition redis_hset :: "string \<Rightarrow> string \<Rightarrow> string \<Rightarrow> redis \<Rightarrow> redis" where
  "redis_hset k field v st =
     st\<lparr>hashes := (hashes st)(k := filter (\<lambda>e. fst e \<noteq> field) (hashes st k) @ [(field, v)])\<rparr>"

text \<open>
  \<^verbatim>\<open>ZADD\<close> puts the member at its place in score order, after the members of equal
  score; \<^verbatim>\<open>ZREM\<close> removes it.
\<close>

definition redis_zadd :: "string \<Rightarrow> string \<Rightarrow> int \<Rightarrow> redis \<Rightarrow> redis" where
  "redis_zadd k member score st =
     (let others = filter (\<lambda>e. fst e \<noteq> member) (zsets st k)
      in st\<lparr>zsets := (zsets st)
               (k := takeWhile (\<lambda>e. snd e \<le> score) others @ [(member, score)]
                     @ dropWhile (\<lambda>e. snd e \<le> score) others)\<rparr>)"

definition redis_zrem :: "string \<Rightarrow> string \<Rightarrow> redis \<Rightarrow> redis" where
  "redis_zrem k member st =
     st\<lparr>zsets := (zsets st)(k := filter (\<lambda>e. fst e \<noteq> member) (zsets st k))\<rparr>"

text \<open>The member of lowest score of a sorted set, the first one among equal scores.\<close>

definition zset_lowest :: "(string \<times> int) list \<Rightarrow> (string \<times> int) option" where
  "zset_lowest members =
     (case members of
        [] \<Rightarrow> None
      | m # rest \<Rightarrow> Some (foldl (\<lambda>a b. if snd b < snd a then b else a) m rest))"

text \<open>\<^verbatim>\<open>SADD\<close> and \<^verbatim>\<open>SREM\<close> on a set, \<^verbatim>\<open>RPUSH\<close> and \<^verbatim>\<open>LPUSH\<close> on a list.\<close>

definition redis_sadd :: "string \<Rightarrow> string \<Rightarrow> redis \<Rightarrow> redis" where
  "redis_sadd k member st =
     st\<lparr>sets := (sets st)
            (k := (if member \<in> set (sets st k) then sets st k else sets st k @ [member]))\<rparr>"

definition redis_srem :: "string \<Rightarrow> string \<Rightarrow> redis \<Rightarrow> redis" where
  "redis_srem k member st = st\<lparr>sets := (sets st)(k := removeAll member (sets st k))\<rparr>"

definition redis_rpush :: "string \<Rightarrow> string \<Rightarrow> redis \<Rightarrow> redis" where
  "redis_rpush k v st = st\<lparr>lists := (lists st)(k := lists st k @ [v])\<rparr>"

definition redis_lpush :: "string \<Rightarrow> string \<Rightarrow> redis \<Rightarrow> redis" where
  "redis_lpush k v st = st\<lparr>lists := (lists st)(k := v # lists st k)\<rparr>"

text \<open>
  A rate counter of one minute: \<^verbatim>\<open>INCR\<close>, and a time to live of ten minutes. The minute
  of a time in epoch milliseconds is written as the number of whole minutes since the
  epoch; the specification leaves the format of the bucket open.
\<close>

definition minute_bucket :: "int \<Rightarrow> string" where
  "minute_bucket now = py_str (PyInt (now div 60000))"

definition redis_incr_minute :: "string \<Rightarrow> redis \<Rightarrow> redis" where
  "redis_incr_minute k st =
     st\<lparr>counters := (counters st)(k := counters st k + 1),
        expires := (expires st)(k \<mapsto> 600000)\<rparr>"

subsection \<open>The enqueue, dequeue and requeue scripts\<close>

text \<open>
  Modelled from the spec: \<^verbatim>\<open>scripts/lua/enqueue.lua\<close> is loaded by \<^verbatim>\<open>_load_lua_scripts\<close>
  and its code is not part of \<^verbatim>\<open>queue.py\<close>. Section 4.5.1,
  \<open>enqueue(P, T; now, Q, J, payload, interval)\<close>:
  \<^enum> if \<open>Q\<close> has no interval binding in \<open>P:interval\<close>, set it to \<open>interval\<close>;
  \<^enum> append \<open>J\<close> to the tail of \<open>P:T:Q\<close>;
  \<^enum> store \<open>payload\<close> at \<open>P:payload["T:Q:J"]\<close>;
  \<^enum> if \<open>Q\<close> is not already in \<open>P:T\<close>, insert it with score \<open>now\<close>;
  \<^enum> ensure \<open>T\<close> is in \<open>P:ready:queue_type\<close>;
  \<^enum> increment \<open>P:enqueue:minute(now)\<close> and \<open>P:T:Q:enqueue:minute(now)\<close>, each with a
    time to live of ten minutes.

  The arguments arrive as the orchestrator sends them: \<open>now\<close> is a decimal string.
  A script that fails, here on a \<open>now\<close> that is no number or on a wrong number of
  keys or arguments, leaves the store as it is (section 7).
\<close>

definition enqueue_script :: "pyval list \<Rightarrow> pyval list \<Rightarrow> redis \<Rightarrow> redis" where
  "enqueue_script keys args st =
     (case (keys, args) of
        ([p, t], [now_arg, q, j, payload, interval_arg]) \<Rightarrow>
          (case py_int now_arg of
             Inl e \<Rightarrow> st
           | Inr now \<Rightarrow>
               let interval_key = py_str p @ '':interval'';
                   interval_field = py_str t @ '':'' @ py_str q;
                   jobs_key = py_str p @ '':'' @ py_str t @ '':'' @ py_str q;
                   payload_key = py_str p @ '':payload'';
                   payload_field = py_str t @ '':'' @ py_str q @ '':'' @ py_str j;
                   ready_key = py_str p @ '':'' @ py_str t;
                   registry_key = py_str p @ '':ready:queue_type'';
                   st1 = (if redis_hget st interval_key interval_field = None
                          then redis_hset interval_key interval_field (py_str interval_arg) st
                          else st);
                   st2 = redis_rpush jobs_key (py_str j) st1;
                   st3 = redis_hset payload_key payload_field (py_str payload) st2;
                   st4 = (if py_str q \<notin> set (map fst (zsets st3 ready_key))
                          then redis_zadd ready_key (py_str q) now st3 else st3);
                   st5 = redis_sadd registry_key (py_str t) st4;
                   st6 = redis_incr_minute
                           (py_str p @ '':enqueue:'' @ minute_bucket now) st5
               in redis_incr_minute (jobs_key @ '':enqueue:'' @ minute_bucket now) st6)
      | _ \<Rightarrow> st)"

text \<open>
  Modelled from the spec: \<^verbatim>\<open>scripts/lua/dequeue.lua\<close> is loaded by \<^verbatim>\<open>_load_lua_scripts\<close>
  and its code is not part of \<^verbatim>\<open>queue.py\<close>. Section 4.5.2,
  \<open>dequeue(P, T; now, expire_ms)\<close>:
  \<^enum> read the lowest-scored \<open>Q\<close> from \<open>P:T\<close> where score \<open>\<le> now\<close>; if none, return failure;
  \<^enum> pop the head \<open>J\<close> of \<open>P:T:Q\<close>;
  \<^enum> read \<open>payload\<close> at \<open>P:payload["T:Q:J"]\<close>;
  \<^enum> if \<open>P:T:Q\<close> is now empty, remove \<open>Q\<close> from \<open>P:T\<close>;
  \<^enum> otherwise re-score \<open>Q\<close> in \<open>P:T\<close> to \<open>now + interval(T,Q)\<close>;
  \<^enum> if \<open>P:T\<close> is now empty, remove \<open>T\<close> from \<open>P:ready:queue_type\<close>;
  \<^enum> insert \<open>"Q:J"\<close> into \<open>P:T:active\<close> with score \<open>now + expire_ms\<close> and ensure \<open>T\<close> is in
    \<open>P:active:queue_type\<close>;
  \<^enum> increment the dequeue counters as enqueue does its own;
  and return \<open>(Q, J, payload)\<close>. The failure reply is the empty reply.

  The invariants of section 3 say that a queue id in the ready set has a job, that
  the job has a payload, and step 1 of enqueue that the queue has an interval. Where
  the store does not satisfy them, or an argument is no number, the script fails: the
  model leaves the store as it is (section 7) and gives the failure reply.
\<close>

definition interval_binding :: "redis \<Rightarrow> string \<Rightarrow> string \<Rightarrow> int option" where
  "interval_binding st interval_key interval_field =
     (case redis_hget st interval_key interval_field of
        None \<Rightarrow> None
      | Some v \<Rightarrow> (case py_int_of_str v of Inl e \<Rightarrow> None | Inr n \<Rightarrow> Some n))"

definition dequeue_script :: "pyval list \<Rightarrow> pyval list \<Rightarrow> redis \<Rightarrow> string list \<times> redis" where
  "dequeue_script keys args st =
     (case (keys, args) of
        ([p, t], [now_arg, expire_arg]) \<Rightarrow>
          (case (py_int now_arg, py_int expire_arg) of
             (Inr now, Inr expire_ms) \<Rightarrow>
               let ready_key = py_str p @ '':'' @ py_str t;
                   active_key = py_str p @ '':'' @ py_str t @ '':active''
               in (case zset_lowest (zsets st ready_key) of
                     None \<Rightarrow> ([], st)
                   | Some (queue_id, score) \<Rightarrow>
                       if now < score then ([], st)
                       else
                         let jobs_key = ready_key @ '':'' @ queue_id in
                         (case lists st jobs_key of
                            [] \<Rightarrow> ([], st)
                          | job_id # rest \<Rightarrow>
                              (case (redis_hget st (py_str p @ '':payload'')
                                       (py_str t @ '':'' @ queue_id @ '':'' @ job_id),
                                     interval_binding st (py_str p @ '':interval'')
                                       (py_str t @ '':'' @ queue_id)) of
                                 (Some payload, Some interval_ms) \<Rightarrow>
                                   let st2 = st\<lparr>lists := (lists st)(jobs_key := rest)\<rparr>;
                                       st5 = (if rest = []
                                              then redis_zrem ready_key queue_id st2
                                              else redis_zadd ready_key queue_id
                                                     (now + interval_ms) st2);
                                       st6 = (if zsets st5 ready_key = []
                                              then redis_srem (py_str p @ '':ready:queue_type'')
                                                     (py_str t) st5
                                              else st5);
                                       st7 = redis_sadd (py_str p @ '':active:queue_type'')
                                               (py_str t)
                                               (redis_zadd active_key
                                                  (queue_id @ '':'' @ job_id)
                                                  (now + expire_ms) st6);
                                       st8 = redis_incr_minute
                                               (py_str p @ '':dequeue:'' @ minute_bucket now) st7
                                   in ([queue_id, job_id, payload],
                                       redis_incr_minute
                                         (jobs_key @ '':dequeue:'' @ minute_bucket now) st8)
                               | _ \<Rightarrow> ([], st))))
           | _ \<Rightarrow> ([], st))
      | _ \<Rightarrow> ([], st))"

text \<open>
  Modelled from the spec: \<^verbatim>\<open>scripts/lua/requeue.lua\<close> is loaded by \<^verbatim>\<open>_load_lua_scripts\<close>
  and its code is not part of \<^verbatim>\<open>queue.py\<close>. Section 4.5.5, \<open>requeue(P, T; now)\<close>: for
  each member \<open>"Q:J"\<close> of \<open>P:T:active\<close> whose score is \<open>\<le> now\<close>,
  \<^enum> remove it from \<open>P:T:active\<close>;
  \<^enum> prepend \<open>J\<close> to the head of \<open>P:T:Q\<close>;
  \<^enum> if \<open>Q\<close> is not in \<open>P:T\<close>, insert it with score \<open>now\<close>;
  \<^enum> maintain the type registries per invariant 3: \<open>T\<close> is in \<open>P:ready:queue_type\<close>
    exactly when \<open>P:T\<close> is non-empty, and in \<open>P:active:queue_type\<close> exactly when
    \<open>P:T:active\<close> is non-empty.

  The payload is left in place. \<open>Q\<close> is the part of the token before its first colon,
  \<open>J\<close> the part after it.
\<close>

fun requeue_expired ::
  "string \<Rightarrow> string \<Rightarrow> int \<Rightarrow> (string \<times> int) list \<Rightarrow> redis \<Rightarrow> redis" where
  "requeue_expired ready_key active_key now [] st = st"
| "requeue_expired ready_key active_key now ((token, score) # rest) st =
     (if score \<le> now then
        let queue_id = split_colon_first token;
            job_id = drop (length queue_id + 1) token;
            st1 = redis_zrem active_key token st;
            st2 = redis_lpush (ready_key @ '':'' @ queue_id) job_id st1;
            st3 = (if queue_id \<notin> set (map fst (zsets st2 ready_key))
                   then redis_zadd ready_key queue_id now st2 else st2)
        in requeue_expired ready_key active_key now rest st3
      else requeue_expired ready_key active_key now rest st)"

definition requeue_script :: "pyval list \<Rightarrow> pyval list \<Rightarrow> redis \<Rightarrow> redis" where
  "requeue_script keys args st =
     (case (keys, args) of
        ([p, t], [now_arg]) \<Rightarrow>
          (case py_int now_arg of
             Inl e \<Rightarrow> st
           | Inr now \<Rightarrow>
               let ready_key = py_str p @ '':'' @ py_str t;
                   active_key = py_str p @ '':'' @ py_str t @ '':active'';
                   st3 = requeue_expired ready_key active_key now (zsets st active_key) st;
                   st4 = (if zsets st3 ready_key = []
                          then redis_srem (py_str p @ '':ready:queue_type'') (py_str t) st3
                          else redis_sadd (py_str p @ '':ready:queue_type'') (py_str t) st3)
               in if zsets st4 active_key = []
                  then redis_srem (py_str p @ '':active:queue_type'') (py_str t) st4
                  else redis_sadd (py_str p @ '':active:queue_type'') (py_str t) st4)
      | _ \<Rightarrow> st)"

subsection \<open>A concrete instance\<close>

text \<open>
  A codec on \<open>pyval\<close> payloads for the instance: a string is its own serialization,
  and any other value is rejected with a \<^verbatim>\<open>TypeError\<close>.
\<close>

fun string_serialize :: "pyval \<Rightarrow> string + string" where
  "string_serialize (PyStr s) = Inr s"
| "string_serialize PyNone = Inl ''can not serialize None''"
| "string_serialize (PyInt i) = Inl ''can not serialize int''"

definition string_deserialize :: "string \<Rightarrow> pyval" where
  "string_deserialize s = PyStr s"

text \<open>
  An instance of the collaborators, over the in-memory store, at which the theorems
  below are evaluated: prefix \<^verbatim>\<open>sharq\<close>, the validators of section 4.1 with identifiers of
  at most 100 characters and intervals of at least 1000 ms, a clock that starts at
  1000 and advances by 1000 with every reading, and the finish script of section 4.5.3.
  The dequeue script of the instance answers with the given reply; the remaining
  scripts leave the store as it is.
\<close>

definition example_env :: "string list \<Rightarrow> (redis, pyval) env" where
  "example_env dequeue_reply =
     \<lparr> key_prefix = ''sharq'',
       job_expire_interval = 2000,
       is_valid_identifier = is_valid_identifier_spec 100,
       is_valid_interval = is_valid_interval_spec 1000,
       serialize_payload = string_serialize,
       deserialize_payload = string_deserialize,
       generate_epoch = (\<lambda>n. 1000 * (int n + 1)),
       lua_enqueue = (\<lambda>keys args st. st),
       lua_dequeue = (\<lambda>keys args st. (dequeue_reply, st)),
       lua_finish = finish_script,
       lua_interval = (\<lambda>keys args st. (0, st)),
       lua_requeue = (\<lambda>keys args st. st),
       lua_metrics = (\<lambda>keys args st. ([[], []], st)),
       smembers = redis_smembers,
       zrange = redis_zrange,
       llen = redis_llen \<rparr>"

text \<open>
  A store in which job \<^verbatim>\<open>j1\<close> of queue \<^verbatim>\<open>q1\<close> of type \<^verbatim>\<open>sms\<close> and job \<^verbatim>\<open>j3\<close> of queue
  \<^verbatim>\<open>q9\<close> of type \<^verbatim>\<open>email\<close> have been dequeued and are in flight, and queue \<^verbatim>\<open>q2\<close> of type
  \<^verbatim>\<open>sms\<close> has one job ready.
\<close>

definition example_store :: redis where
  "example_store =
     \<lparr> zsets = (\<lambda>k. if k = ''sharq:sms:active'' then [(''q1:j1'', 3000)]
                     else if k = ''sharq:email:active'' then [(''q9:j3'', 2500)]
                     else if k = ''sharq:sms'' then [(''q2'', 1000)] else []),
       hashes = (\<lambda>k. if k = ''sharq:payload''
                      then [(''sms:q1:j1'', [CHR 0x22] @ ''hello'' @ [CHR 0x22]),
                            (''sms:q2:j7'', [CHR 0x22] @ ''world'' @ [CHR 0x22]),
                            (''email:q9:j3'', [CHR 0x22] @ ''again'' @ [CHR 0x22])]
                      else if k = ''sharq:interval''
                      then [(''sms:q1'', ''5000''), (''sms:q2'', ''5000''),
                            (''email:q9'', ''60000'')] else []),
       sets = (\<lambda>k. if k = ''sharq:active:queue_type'' then [''sms'', ''email'']
                    else if k = ''sharq:ready:queue_type'' then [''sms''] else []),
       lists = (\<lambda>k. if k = ''sharq:sms:q2'' then [''j7''] else []),
       counters = (\<lambda>k. 0),
       expires = (\<lambda>k. None) \<rparr>"

definition example_world :: "redis world" where
  "example_world = \<lparr> store = example_store, ticks = 0, trace = [] \<rparr>"

text \<open>
  The same instance with the enqueue, dequeue and requeue scripts of sections 4.5.1,
  4.5.2 and 4.5.5 in place of the ones that do nothing.
\<close>

definition scripted_env :: "(redis, pyval) env" where
  "scripted_env =
     (example_env [])\<lparr> lua_enqueue := enqueue_script,
                       lua_dequeue := dequeue_script,
                       lua_requeue := requeue_script \<rparr>"

text \<open>
  The example world at its third clock reading, which is 3000: both jobs in flight
  have reached their expiry.
\<close>

definition expired_world :: "redis world" where
  "expired_world = \<lparr> store = example_store, ticks = 2, trace = [] \<rparr>"

section \<open>Predicates used in the statements\<close>

text \<open>
  The inputs that \<^verbatim>\<open>enqueue\<close> rejects: one of the four validated arguments fails its
  check, or the codec raises on the payload.
\<close>

definition enqueue_input_invalid ::
  "('st, 'p) env \<Rightarrow> 'p \<Rightarrow> pyval \<Rightarrow> pyval \<Rightarrow> pyval \<Rightarrow> pyval \<Rightarrow> bool" where
  "enqueue_input_invalid env payload interval_ms job_id queue_id queue_type =
     (\<not> is_valid_interval env interval_ms \<or> \<not> is_valid_identifier env job_id
      \<or> \<not> is_valid_identifier env queue_id \<or> \<not> is_valid_identifier env queue_type
      \<or> (\<exists>m. serialize_payload env payload = Inl m))"

text \<open>
  The token \<open>"Q:J"\<close> under which a dequeued job stands in the active set of its type,
  and the members of that active set \<open>P:T:active\<close> in the in-memory store.
\<close>

definition active_token :: "pyval \<Rightarrow> pyval \<Rightarrow> string" where
  "active_token queue_id job_id = py_str queue_id @ '':'' @ py_str job_id"

definition active_members :: "string \<Rightarrow> pyval \<Rightarrow> redis \<Rightarrow> string list" where
  "active_members prefix queue_type st =
     map fst (zsets st (prefix @ '':'' @ py_str queue_type @ '':active''))"


section \<open>Basic facts about the effects\<close>

lemma read_timestamp_simps:
  "fst (read_timestamp env w) = py_str (PyInt (generate_epoch env (ticks w)))"
  "store (snd (read_timestamp env w)) = store w"
  "ticks (snd (read_timestamp env w)) = Suc (ticks w)"
  "trace (snd (read_timestamp env w)) = trace w @ [Epoch (generate_epoch env (ticks w))]"
  by (simp_all add: read_timestamp_def)

lemma invoke_simps:
  "fst (invoke sc keys args run w) = fst (run (store w))"
  "store (snd (invoke sc keys args run w)) = snd (run (store w))"
  "ticks (snd (invoke sc keys args run w)) = ticks w"
  "trace (snd (invoke sc keys args run w)) = trace w @ [EvalScript sc keys args]"
  by (simp_all add: invoke_def)

lemma redis_read_simps:
  "fst (redis_read ev rd w) = rd (store w)"
  "store (snd (redis_read ev rd w)) = store w"
  "ticks (snd (redis_read ev rd w)) = ticks w"
  "trace (snd (redis_read ev rd w)) = trace w @ [ev]"
  by (simp_all add: redis_read_def)

section \<open>Properties of \<^verbatim>\<open>enqueue\<close>\<close>

text \<open>
  Claim C2. \<^verbatim>\<open>enqueue\<close> raises \<open>BadArgumentException\<close> exactly when the interval, the
  job id, the queue id or the queue type fails validation or the payload cannot be
  serialized. In that case the world is as before the call: no clock reading, no
  command to the store, and the store unchanged. For every other input the reply is
  \<^verbatim>\<open>{'status': 'queued'}\<close>.
\<close>

theorem enqueue_bad_argument:
  "((\<exists>m. fst (enqueue env payload interval_ms job_id queue_id queue_type_arg w)
            = Inl (BadArgumentException m))
      \<longleftrightarrow> enqueue_input_invalid env payload interval_ms job_id queue_id
            (arg_or_default queue_type_arg (PyStr ''default'')))
   \<and> (enqueue_input_invalid env payload interval_ms job_id queue_id
         (arg_or_default queue_type_arg (PyStr ''default''))
       \<longrightarrow> snd (enqueue env payload interval_ms job_id queue_id queue_type_arg w) = w)
   \<and> (\<not> enqueue_input_invalid env payload interval_ms job_id queue_id
           (arg_or_default queue_type_arg (PyStr ''default''))
       \<longrightarrow> fst (enqueue env payload interval_ms job_id queue_id queue_type_arg w)
             = Inr [''status'' \<mapsto> RStr ''queued''])"
  by (cases "serialize_payload env payload")
     (auto simp add: enqueue_def enqueue_input_invalid_def Let_def split_def)

theorem enqueue_bad_argument_witness:
  "fst (enqueue (example_env []) (PyStr ''hello'') (PyInt 5000) (PyStr ''j1'') (PyStr ''q1'')
          (Some (PyStr ''sms'')) example_world) = Inr [''status'' \<mapsto> RStr ''queued'']
   \<and> (\<exists>m. fst (enqueue (example_env []) (PyStr ''hello'') (PyInt 50) (PyStr ''j1'') (PyStr ''q1'')
          (Some (PyStr ''sms'')) example_world) = Inl (BadArgumentException m))
   \<and> snd (enqueue (example_env []) (PyStr ''hello'') (PyInt 50) (PyStr ''j1'') (PyStr ''q1'')
          (Some (PyStr ''sms'')) example_world) = example_world"
proof -
  have ok: "\<not> enqueue_input_invalid (example_env []) (PyStr ''hello'') (PyInt 5000)
              (PyStr ''j1'') (PyStr ''q1'') (arg_or_default (Some (PyStr ''sms'')) (PyStr ''default''))"
    by (simp add: enqueue_input_invalid_def example_env_def arg_or_default_def
          identifier_char_def)
  have bad: "enqueue_input_invalid (example_env []) (PyStr ''hello'') (PyInt 50)
              (PyStr ''j1'') (PyStr ''q1'') (arg_or_default (Some (PyStr ''sms'')) (PyStr ''default''))"
    by (simp add: enqueue_input_invalid_def example_env_def)
  from ok bad
    enqueue_bad_argument [of "example_env []" "PyStr ''hello''" "PyInt 5000" "PyStr ''j1''"
      "PyStr ''q1''" "Some (PyStr ''sms'')" example_world]
    enqueue_bad_argument [of "example_env []" "PyStr ''hello''" "PyInt 50" "PyStr ''j1''"
      "PyStr ''q1''" "Some (PyStr ''sms'')" example_world]
  show ?thesis by blast
qed

section \<open>Properties of \<^verbatim>\<open>dequeue\<close>\<close>

text \<open>
  Claim C3. For a valid queue type, and a script reply of at most three elements (the
  script answers with queue id, job id and payload, or with less when no work is
  ready): the reply of \<^verbatim>\<open>dequeue\<close> is \<^verbatim>\<open>{'status': 'failure'}\<close> and nothing else when the
  script reply has fewer than three elements, and otherwise is the success reply that
  carries the queue id and the job id of the script reply and its payload, stripped of
  its first and last character and deserialized.
\<close>

theorem dequeue_response_shape:
  assumes valid: "is_valid_identifier env (arg_or_default queue_type_arg (PyStr ''default''))"
    and script: "fst (lua_dequeue env
                   [PyStr (key_prefix env), arg_or_default queue_type_arg (PyStr ''default'')]
                   [PyStr (py_str (PyInt (generate_epoch env (ticks w)))),
                    PyInt (job_expire_interval env)] (store w)) = reply"
    and shape: "length reply \<le> 3"
  shows "fst (dequeue env queue_type_arg w) =
           Inr (if length reply < 3 then [''status'' \<mapsto> RStr ''failure'']
                else [''status'' \<mapsto> RStr ''success'',
                      ''queue_id'' \<mapsto> RStr (reply ! 0),
                      ''job_id'' \<mapsto> RStr (reply ! 1),
                      ''payload'' \<mapsto>
                         RPayload (deserialize_payload env (py_slice (reply ! 2) 1 (- 1)))])"
proof (cases "length reply < 3")
  case True
  with valid script show ?thesis
    by (simp add: dequeue_def Let_def split_def read_timestamp_simps invoke_simps)
next
  case False
  with shape have "length reply = 3" by simp
  then obtain a b c where r: "reply = [a, b, c]"
    by (cases reply; simp; rename_tac x xs; case_tac xs; simp;
        rename_tac y ys; case_tac ys; simp)
  with valid script show ?thesis
    by (simp add: dequeue_def Let_def split_def read_timestamp_simps invoke_simps)
qed

theorem dequeue_response_shape_witness:
  "fst (dequeue (example_env []) (Some (PyStr ''sms'')) example_world)
     = Inr [''status'' \<mapsto> RStr ''failure'']
   \<and> fst (dequeue (example_env [''q1'', ''j1'', [CHR 0x22] @ ''hello'' @ [CHR 0x22]])
            (Some (PyStr ''sms'')) example_world)
     = Inr [''status'' \<mapsto> RStr ''success'', ''queue_id'' \<mapsto> RStr ''q1'',
            ''job_id'' \<mapsto> RStr ''j1'', ''payload'' \<mapsto> RPayload (PyStr ''hello'')]"
proof -
  have valid: "is_valid_identifier (example_env r)
                 (arg_or_default (Some (PyStr ''sms'')) (PyStr ''default''))" for r
    by (simp add: example_env_def arg_or_default_def identifier_char_def)
  have script: "fst (lua_dequeue (example_env r)
                   [PyStr (key_prefix (example_env r)),
                    arg_or_default (Some (PyStr ''sms'')) (PyStr ''default'')]
                   [PyStr (py_str (PyInt (generate_epoch (example_env r) (ticks example_world)))),
                    PyInt (job_expire_interval (example_env r))] (store example_world)) = r" for r
    by (simp add: example_env_def)
  have a: "fst (dequeue (example_env []) (Some (PyStr ''sms'')) example_world)
     = Inr [''status'' \<mapsto> RStr ''failure'']"
    using dequeue_response_shape [OF valid script, of "[]"] by simp
  have b: "fst (dequeue (example_env [''q1'', ''j1'', [CHR 0x22] @ ''hello'' @ [CHR 0x22]])
            (Some (PyStr ''sms'')) example_world)
     = Inr [''status'' \<mapsto> RStr ''success'', ''queue_id'' \<mapsto> RStr ''q1'',
            ''job_id'' \<mapsto> RStr ''j1'', ''payload'' \<mapsto> RPayload (PyStr ''hello'')]"
    using dequeue_response_shape [OF valid script, of "[''q1'', ''j1'', [CHR 0x22] @ ''hello'' @ [CHR 0x22]]"]
    by (simp add: example_env_def string_deserialize_def py_slice_def py_slice_bound_def)
  from a b show ?thesis by simp
qed

text \<open>
  A script reply of more than three elements passes the length test and fails at the
  unpacking.
\<close>

lemma dequeue_long_reply:
  assumes "is_valid_identifier env (arg_or_default queue_type_arg (PyStr ''default''))"
    and "fst (lua_dequeue env
                   [PyStr (key_prefix env), arg_or_default queue_type_arg (PyStr ''default'')]
                   [PyStr (py_str (PyInt (generate_epoch env (ticks w)))),
                    PyInt (job_expire_interval env)] (store w)) = a # b # c # d # rest"
  shows "fst (dequeue env queue_type_arg w) = Inl ValueError"
  using assms
  by (simp add: dequeue_def Let_def split_def read_timestamp_simps invoke_simps)

section \<open>The payload on its way through the store\<close>

text \<open>
  \<^verbatim>\<open>payload[1:-1]\<close> drops the first and the last character of the token, and so undoes
  the quoting of \<^verbatim>\<open>enqueue\<close>.
\<close>

lemma py_slice_strips_ends: "py_slice t 1 (- 1) = butlast (tl t)"
proof (cases t)
  case Nil
  then show ?thesis by (simp add: py_slice_def py_slice_bound_def)
next
  case (Cons c cs)
  then show ?thesis
    by (simp add: py_slice_def py_slice_bound_def butlast_conv_take)
qed


subsection \<open>Reading back a number written by \<^verbatim>\<open>str\<close>\<close>

text \<open>
  The scripts receive the time as the decimal string the orchestrator made of it;
  \<^verbatim>\<open>int\<close> reads back what \<^verbatim>\<open>str\<close> wrote.
\<close>

lemma digit_char: "d < 10 \<Longrightarrow> is_digit (char_of (48 + d :: nat))"
  by (simp add: is_digit_def)

lemma digits_of_digits: "digits_of n \<noteq> [] \<and> list_all is_digit (digits_of n)"
proof (induction n rule: digits_of.induct)
  case (1 n)
  show ?case
  proof (cases "n < 10")
    case True
    then show ?thesis by (subst digits_of.simps, subst digits_of.simps) (simp add: digit_char)
  next
    case False
    with 1 have "list_all is_digit (digits_of (n div 10))" by simp
    moreover have "is_digit (char_of (48 + n mod 10))" by (rule digit_char) simp
    ultimately show ?thesis
      using False by (subst digits_of.simps, subst (2) digits_of.simps) simp
  qed
qed

lemma nat_of_digits_snoc:
  "nat_of_digits (ds @ [c]) = 10 * nat_of_digits ds + ((of_char c :: nat) - 48)"
  by (simp add: nat_of_digits_def)

lemma nat_of_digits_digits_of: "nat_of_digits (digits_of n) = n"
proof (induction n rule: digits_of.induct)
  case (1 n)
  show ?case
  proof (cases "n < 10")
    case True
    then show ?thesis
      by (subst digits_of.simps) (simp add: nat_of_digits_def)
  next
    case False
    with 1 have "nat_of_digits (digits_of (n div 10)) = n div 10" by simp
    moreover have "(of_char (char_of (48 + n mod 10 :: nat)) :: nat) = 48 + n mod 10"
      by simp
    ultimately show ?thesis
      using False by (subst digits_of.simps) (simp add: nat_of_digits_snoc)
  qed
qed

lemma digit_not_space: "is_digit c \<Longrightarrow> \<not> is_space c"
  by (auto simp add: is_digit_def is_space_def)

lemma digit_not_sign: "is_digit c \<Longrightarrow> c \<noteq> CHR ''-'' \<and> c \<noteq> CHR ''+''"
  by (auto simp add: is_digit_def)

lemma strip_spaces_id:
  assumes "s \<noteq> []" "\<not> is_space (hd s)" "\<not> is_space (last s)"
  shows "strip_spaces s = s"
proof -
  from assms have a: "dropWhile is_space s = s"
    by (cases s) simp_all
  from assms have "dropWhile is_space (rev s) = rev s"
    by (cases "rev s") (simp_all add: last_rev hd_rev)
  with a show ?thesis by (simp add: strip_spaces_def)
qed

lemma int_of_digits_digits_of: "int_of_digits (digits_of n) = Inr (int n)"
  using digits_of_digits [of n] by (simp add: int_of_digits_def nat_of_digits_digits_of)

lemma py_int_of_str_digits: "py_int_of_str (digits_of n) = Inr (int n)"
proof -
  obtain c cs where d: "digits_of n = c # cs"
    using digits_of_digits [of n] by (cases "digits_of n") auto
  with digits_of_digits [of n] have c: "is_digit c" and l: "is_digit (last (c # cs))"
    by (auto simp add: list_all_iff)
  then have "strip_spaces (c # cs) = c # cs"
    by (intro strip_spaces_id) (simp_all add: digit_not_space del: last.simps)
  with c d show ?thesis
    using digit_not_sign [of c] int_of_digits_digits_of [of n]
    by (simp add: py_int_of_str_def)
qed

lemma py_int_of_str_minus_digits: "py_int_of_str (CHR ''-'' # digits_of n) = Inr (- int n)"
proof -
  have "is_digit (last (digits_of n))"
    using digits_of_digits [of n] by (auto simp add: list_all_iff)
  then have "\<not> is_space (last (CHR ''-'' # digits_of n))"
    using digits_of_digits [of n] by (simp add: digit_not_space)
  moreover have "\<not> is_space (hd (CHR ''-'' # digits_of n))"
    by (simp add: is_space_def)
  ultimately have "strip_spaces (CHR ''-'' # digits_of n) = CHR ''-'' # digits_of n"
    by (intro strip_spaces_id) simp_all
  then show ?thesis
    by (simp add: py_int_of_str_def int_of_digits_digits_of bind_err_def)
qed

lemma py_int_py_str: "py_int (PyStr (py_str (PyInt i))) = Inr i"
  by (simp add: py_int_of_str_digits py_int_of_str_minus_digits)

subsection \<open>What the enqueue and dequeue scripts do to a job\<close>






















subsection \<open>The round trip\<close>



section \<open>Properties of \<^verbatim>\<open>finish\<close>\<close>

text \<open>The reply of \<^verbatim>\<open>finish\<close> on valid identifiers, over any store and any finish script.\<close>

lemma finish_reply_generic:
  assumes "is_valid_identifier env job_id" "is_valid_identifier env queue_id"
    "is_valid_identifier env (arg_or_default queue_type_arg (PyStr ''default''))"
  shows "finish env job_id queue_id queue_type_arg w =
           (Inr [''status'' \<mapsto> RStr
                   (if fst (lua_finish env
                              [PyStr (key_prefix env),
                               arg_or_default queue_type_arg (PyStr ''default'')]
                              [queue_id, job_id] (store w)) = 0
                    then ''failure'' else ''success'')],
            snd (invoke LuaFinish
                   [PyStr (key_prefix env), arg_or_default queue_type_arg (PyStr ''default'')]
                   [queue_id, job_id]
                   (lua_finish env
                      [PyStr (key_prefix env), arg_or_default queue_type_arg (PyStr ''default'')]
                      [queue_id, job_id]) w))"
  using assms by (simp add: finish_def Let_def split_def invoke_simps)

lemma finish_script_absent:
  "active_token q j \<notin> set (active_members (py_str p) t st)
   \<Longrightarrow> finish_script [p, t] [q, j] st = (0, st)"
  by (simp add: finish_script_def active_token_def active_members_def Let_def)

lemma finish_script_present:
  "active_token q j \<in> set (active_members (py_str p) t st)
   \<Longrightarrow> fst (finish_script [p, t] [q, j] st) = 1"
  by (simp add: finish_script_def active_token_def active_members_def Let_def)

lemma finish_script_removes:
  "active_token q j \<notin> set (active_members (py_str p) t (snd (finish_script [p, t] [q, j] st)))"
  by (auto simp add: finish_script_def active_token_def active_members_def Let_def)

text \<open>
  Claim C4. For valid identifiers the reply of \<^verbatim>\<open>finish\<close> is \<^verbatim>\<open>{'status': 'failure'}\<close> when
  the finish script returns \<open>0\<close> and \<^verbatim>\<open>{'status': 'success'}\<close> otherwise. With the finish
  script of section 4.5.3 of the specification, the first of two successive calls for
  the same job succeeds exactly when the token \<open>"Q:J"\<close> is in the active set, the second
  call replies failure, and the second call leaves the store as the first one left it.
\<close>

theorem finish_reply_and_idempotence:
  fixes env :: "(redis, 'p) env"
  assumes valid: "is_valid_identifier env job_id" "is_valid_identifier env queue_id"
      "is_valid_identifier env (arg_or_default queue_type_arg (PyStr ''default''))"
  shows "fst (finish env job_id queue_id queue_type_arg w)
           = Inr [''status'' \<mapsto> RStr
                   (if fst (lua_finish env
                              [PyStr (key_prefix env),
                               arg_or_default queue_type_arg (PyStr ''default'')]
                              [queue_id, job_id] (store w)) = 0
                    then ''failure'' else ''success'')]
         \<and> (lua_finish env = finish_script \<longrightarrow>
              fst (finish env job_id queue_id queue_type_arg w)
                = Inr [''status'' \<mapsto> RStr
                        (if active_token queue_id job_id
                              \<in> set (active_members (key_prefix env)
                                       (arg_or_default queue_type_arg (PyStr ''default''))
                                       (store w))
                         then ''success'' else ''failure'')]
              \<and> fst (finish env job_id queue_id queue_type_arg
                        (snd (finish env job_id queue_id queue_type_arg w)))
                = Inr [''status'' \<mapsto> RStr ''failure'']
              \<and> store (snd (finish env job_id queue_id queue_type_arg
                        (snd (finish env job_id queue_id queue_type_arg w))))
                = store (snd (finish env job_id queue_id queue_type_arg w)))"
proof -
  let ?qt = "arg_or_default queue_type_arg (PyStr ''default'')"
  let ?keys = "[PyStr (key_prefix env), ?qt]"
  let ?args = "[queue_id, job_id]"
  note reply = finish_reply_generic [OF valid]
  have first: "fst (finish env job_id queue_id queue_type_arg w)
           = Inr [''status'' \<mapsto> RStr
                   (if fst (lua_finish env ?keys ?args (store w)) = 0
                    then ''failure'' else ''success'')]"
    by (simp add: reply)
  have second: "fst (finish env job_id queue_id queue_type_arg w)
                = Inr [''status'' \<mapsto> RStr
                        (if active_token queue_id job_id
                              \<in> set (active_members (key_prefix env) ?qt (store w))
                         then ''success'' else ''failure'')]
              \<and> fst (finish env job_id queue_id queue_type_arg
                        (snd (finish env job_id queue_id queue_type_arg w)))
                = Inr [''status'' \<mapsto> RStr ''failure'']
              \<and> store (snd (finish env job_id queue_id queue_type_arg
                        (snd (finish env job_id queue_id queue_type_arg w))))
                = store (snd (finish env job_id queue_id queue_type_arg w))"
    if script: "lua_finish env = finish_script"
  proof -
    let ?st1 = "snd (finish_script ?keys ?args (store w))"
    have st1: "store (snd (finish env job_id queue_id queue_type_arg w)) = ?st1"
      by (simp add: reply invoke_simps script)
    have gone: "active_token queue_id job_id
                  \<notin> set (active_members (key_prefix env) ?qt ?st1)"
      using finish_script_removes [of queue_id job_id "PyStr (key_prefix env)" ?qt "store w"]
      by simp
    have again: "finish_script ?keys ?args ?st1 = (0, ?st1)"
      using finish_script_absent [of queue_id job_id "PyStr (key_prefix env)" ?qt ?st1] gone
      by simp
    have a: "fst (finish env job_id queue_id queue_type_arg w)
                = Inr [''status'' \<mapsto> RStr
                        (if active_token queue_id job_id
                              \<in> set (active_members (key_prefix env) ?qt (store w))
                         then ''success'' else ''failure'')]"
    proof (cases "active_token queue_id job_id
                    \<in> set (active_members (key_prefix env) ?qt (store w))")
      case True
      with finish_script_present [of queue_id job_id "PyStr (key_prefix env)" ?qt "store w"]
      show ?thesis by (simp add: reply script)
    next
      case False
      with finish_script_absent [of queue_id job_id "PyStr (key_prefix env)" ?qt "store w"]
      show ?thesis by (simp add: reply script)
    qed
    have b: "fst (finish env job_id queue_id queue_type_arg
                        (snd (finish env job_id queue_id queue_type_arg w)))
                = Inr [''status'' \<mapsto> RStr ''failure'']"
      using again
      by (simp add: finish_reply_generic [OF valid,
                      of "snd (finish env job_id queue_id queue_type_arg w)"] st1 script)
    have c: "store (snd (finish env job_id queue_id queue_type_arg
                        (snd (finish env job_id queue_id queue_type_arg w))))
                = store (snd (finish env job_id queue_id queue_type_arg w))"
      using again
      by (simp add: finish_reply_generic [OF valid,
                      of "snd (finish env job_id queue_id queue_type_arg w)"]
            st1 script invoke_simps)
    from a b c show ?thesis by simp
  qed
  from first second show ?thesis by blast
qed

theorem finish_reply_and_idempotence_witness:
  "fst (finish (example_env []) (PyStr ''j1'') (PyStr ''q1'') (Some (PyStr ''sms''))
          example_world)
     = Inr [''status'' \<mapsto> RStr ''success'']
   \<and> fst (finish (example_env []) (PyStr ''j1'') (PyStr ''q1'') (Some (PyStr ''sms''))
            (snd (finish (example_env []) (PyStr ''j1'') (PyStr ''q1'') (Some (PyStr ''sms''))
                    example_world)))
     = Inr [''status'' \<mapsto> RStr ''failure'']
   \<and> store (snd (finish (example_env []) (PyStr ''j1'') (PyStr ''q1'') (Some (PyStr ''sms''))
            (snd (finish (example_env []) (PyStr ''j1'') (PyStr ''q1'') (Some (PyStr ''sms''))
                    example_world))))
     = store (snd (finish (example_env []) (PyStr ''j1'') (PyStr ''q1'') (Some (PyStr ''sms''))
                example_world))"
proof -
  have v1: "is_valid_identifier (example_env []) (PyStr ''j1'')"
    by (simp add: example_env_def identifier_char_def)
  have v2: "is_valid_identifier (example_env []) (PyStr ''q1'')"
    by (simp add: example_env_def identifier_char_def)
  have v3: "is_valid_identifier (example_env [])
              (arg_or_default (Some (PyStr ''sms'')) (PyStr ''default''))"
    by (simp add: example_env_def identifier_char_def arg_or_default_def)
  have script: "lua_finish (example_env []) = finish_script"
    by (simp add: example_env_def)
  have active: "active_token (PyStr ''q1'') (PyStr ''j1'')
                  \<in> set (active_members (key_prefix (example_env []))
                           (arg_or_default (Some (PyStr ''sms'')) (PyStr ''default''))
                           (store example_world))"
    by (simp add: active_token_def active_members_def example_env_def arg_or_default_def
          example_world_def example_store_def)
  from finish_reply_and_idempotence [OF v1 v2 v3, of example_world] script
  have "fst (finish (example_env []) (PyStr ''j1'') (PyStr ''q1'') (Some (PyStr ''sms''))
          example_world)
     = Inr [''status'' \<mapsto> RStr
             (if active_token (PyStr ''q1'') (PyStr ''j1'')
                   \<in> set (active_members (key_prefix (example_env []))
                            (arg_or_default (Some (PyStr ''sms'')) (PyStr ''default''))
                            (store example_world))
              then ''success'' else ''failure'')]
   \<and> fst (finish (example_env []) (PyStr ''j1'') (PyStr ''q1'') (Some (PyStr ''sms''))
            (snd (finish (example_env []) (PyStr ''j1'') (PyStr ''q1'') (Some (PyStr ''sms''))
                    example_world)))
     = Inr [''status'' \<mapsto> RStr ''failure'']
   \<and> store (snd (finish (example_env []) (PyStr ''j1'') (PyStr ''q1'') (Some (PyStr ''sms''))
            (snd (finish (example_env []) (PyStr ''j1'') (PyStr ''q1'') (Some (PyStr ''sms''))
                    example_world))))
     = store (snd (finish (example_env []) (PyStr ''j1'') (PyStr ''q1'') (Some (PyStr ''sms''))
                example_world))"
    by blast
  with active show ?thesis by simp
qed

section \<open>Properties of \<^verbatim>\<open>requeue\<close>\<close>

lemma requeue_loop_trace:
  "trace (requeue_loop env timestamp queue_types w)
     = trace w @ map (\<lambda>queue_type. EvalScript LuaRequeue
                        [PyStr (key_prefix env), PyStr queue_type] [PyStr timestamp]) queue_types"
  by (induction queue_types arbitrary: w) (simp_all add: Let_def split_def invoke_simps)


lemma requeue_unfold:
  "requeue env w =
     (PyNone,
      requeue_loop env (py_str (PyInt (generate_epoch env (ticks w))))
        (py_set (smembers env (key_prefix env @ '':active:queue_type'') (store w)))
        (snd (redis_read (SMembers (key_prefix env @ '':active:queue_type''))
                (\<lambda>s. py_set (smembers env (key_prefix env @ '':active:queue_type'') s))
                (snd (read_timestamp env w)))))"
  by (simp add: requeue_def Let_def split_def read_timestamp_simps redis_read_simps)

lemma requeue_trace:
  "trace (snd (requeue env w))
     = trace w
       @ [Epoch (generate_epoch env (ticks w)),
          SMembers (key_prefix env @ '':active:queue_type'')]
       @ map (\<lambda>queue_type. EvalScript LuaRequeue
                [PyStr (key_prefix env), PyStr queue_type]
                [PyStr (py_str (PyInt (generate_epoch env (ticks w))))])
           (py_set (smembers env (key_prefix env @ '':active:queue_type'') (store w)))"
  by (simp add: requeue_unfold requeue_loop_trace redis_read_simps read_timestamp_simps)




text \<open>The store after a pass: the requeue script, run for one type after the other.\<close>

lemma requeue_loop_store:
  "store (requeue_loop env timestamp queue_types w)
     = foldl (\<lambda>st queue_type.
                lua_requeue env [PyStr (key_prefix env), PyStr queue_type] [PyStr timestamp] st)
         (store w) queue_types"
  by (induction queue_types arbitrary: w) (simp_all add: Let_def split_def invoke_simps)

lemma requeue_store:
  "store (snd (requeue env w))
     = foldl (\<lambda>st queue_type.
                lua_requeue env [PyStr (key_prefix env), PyStr queue_type]
                  [PyStr (py_str (PyInt (generate_epoch env (ticks w))))] st)
         (store w)
         (py_set (smembers env (key_prefix env @ '':active:queue_type'') (store w)))"
  by (simp add: requeue_unfold requeue_loop_store redis_read_simps read_timestamp_simps
        del: py_str.simps(2))

text \<open>
  The pass of the requeue script of section 4.5.5 over the example store at time 3000:
  both jobs in flight are back at the head of their queues.
\<close>

lemma scripted_requeue_store:
  "lists (foldl (\<lambda>st queue_type.
                  requeue_script [PyStr ''sharq'', PyStr queue_type]
                    [PyStr (py_str (PyInt 3000))] st)
            example_store [''sms'', ''email'']) ''sharq:sms:q1'' = [''j1'']"
  "lists (foldl (\<lambda>st queue_type.
                  requeue_script [PyStr ''sharq'', PyStr queue_type]
                    [PyStr (py_str (PyInt 3000))] st)
            example_store [''sms'', ''email'']) ''sharq:email:q9'' = [''j3'']"
  "zsets (foldl (\<lambda>st queue_type.
                  requeue_script [PyStr ''sharq'', PyStr queue_type]
                    [PyStr (py_str (PyInt 3000))] st)
            example_store [''sms'', ''email'']) ''sharq:sms:active'' = []"
  "zsets (foldl (\<lambda>st queue_type.
                  requeue_script [PyStr ''sharq'', PyStr queue_type]
                    [PyStr (py_str (PyInt 3000))] st)
            example_store [''sms'', ''email'']) ''sharq:email:active'' = []"
  "zsets (foldl (\<lambda>st queue_type.
                  requeue_script [PyStr ''sharq'', PyStr queue_type]
                    [PyStr (py_str (PyInt 3000))] st)
            example_store [''sms'', ''email'']) ''sharq:sms'' = [(''q2'', 1000), (''q1'', 3000)]"
  "sets (foldl (\<lambda>st queue_type.
                  requeue_script [PyStr ''sharq'', PyStr queue_type]
                    [PyStr (py_str (PyInt 3000))] st)
            example_store [''sms'', ''email'']) ''sharq:active:queue_type'' = []"
  by (simp_all add: requeue_script_def py_int_py_str Let_def example_store_def
        redis_zrem_def redis_lpush_def redis_zadd_def redis_sadd_def redis_srem_def
        split_colon_first_def
        del: py_str.simps(2) py_int.simps(3))

text \<open>
  Claim C5. \<^verbatim>\<open>requeue\<close> takes no argument and returns \<^verbatim>\<open>None\<close>. It reads the clock, reads
  the members of \<open>P:active:queue_type\<close> with one \<^verbatim>\<open>SMEMBERS\<close>, and then invokes the requeue
  script once for each member, in the order of the enumeration, with the keys
  \<open>(key_prefix, queue_type)\<close>: every invocation names one queue type, no queue type is
  named twice, and the store after the call is the store before it with the script
  run on it for each enumerated type in turn.
\<close>

theorem requeue_one_script_per_type:
  "fst (requeue env w) = PyNone
   \<and> distinct (py_set (smembers env (key_prefix env @ '':active:queue_type'') (store w)))
   \<and> set (py_set (smembers env (key_prefix env @ '':active:queue_type'') (store w)))
       = set (smembers env (key_prefix env @ '':active:queue_type'') (store w))
   \<and> trace (snd (requeue env w))
       = trace w
         @ [Epoch (generate_epoch env (ticks w)),
            SMembers (key_prefix env @ '':active:queue_type'')]
         @ map (\<lambda>queue_type. EvalScript LuaRequeue
                  [PyStr (key_prefix env), PyStr queue_type]
                  [PyStr (py_str (PyInt (generate_epoch env (ticks w))))])
             (py_set (smembers env (key_prefix env @ '':active:queue_type'') (store w)))
   \<and> store (snd (requeue env w))
       = foldl (\<lambda>st queue_type.
                  lua_requeue env [PyStr (key_prefix env), PyStr queue_type]
                    [PyStr (py_str (PyInt (generate_epoch env (ticks w))))] st)
           (store w)
           (py_set (smembers env (key_prefix env @ '':active:queue_type'') (store w)))"
proof -
  have "fst (requeue env w) = PyNone"
    by (simp add: requeue_unfold)
  moreover have "distinct (py_set (smembers env (key_prefix env @ '':active:queue_type'') (store w)))"
    by (simp add: py_set_def)
  moreover have "set (py_set (smembers env (key_prefix env @ '':active:queue_type'') (store w)))
       = set (smembers env (key_prefix env @ '':active:queue_type'') (store w))"
    by (simp add: py_set_def)
  ultimately show ?thesis
    using requeue_trace [of env w] requeue_store [of env w] by simp
qed

theorem requeue_one_script_per_type_witness:
  "fst (requeue scripted_env expired_world) = PyNone
   \<and> trace (snd (requeue scripted_env expired_world))
     = [Epoch 3000, SMembers ''sharq:active:queue_type'',
        EvalScript LuaRequeue [PyStr ''sharq'', PyStr ''sms''] [PyStr ''3000''],
        EvalScript LuaRequeue [PyStr ''sharq'', PyStr ''email''] [PyStr ''3000'']]
   \<and> lists (store (snd (requeue scripted_env expired_world))) ''sharq:sms:q1'' = [''j1'']
   \<and> lists (store (snd (requeue scripted_env expired_world))) ''sharq:email:q9'' = [''j3'']
   \<and> zsets (store (snd (requeue scripted_env expired_world))) ''sharq:sms:active'' = []
   \<and> zsets (store (snd (requeue scripted_env expired_world))) ''sharq:email:active'' = []
   \<and> sets (store (snd (requeue scripted_env expired_world))) ''sharq:active:queue_type'' = []"
proof -
  have types: "py_set (smembers scripted_env (key_prefix scripted_env @ '':active:queue_type'')
                         (store expired_world)) = [''sms'', ''email'']"
    by (simp add: scripted_env_def example_env_def expired_world_def example_store_def
          redis_smembers_def py_set_def)
  have key: "key_prefix scripted_env @ '':active:queue_type'' = ''sharq:active:queue_type''"
    by (simp add: scripted_env_def example_env_def)
  have prefix: "key_prefix scripted_env = ''sharq''"
    by (simp add: scripted_env_def example_env_def)
  have start: "trace expired_world = []" "ticks expired_world = 2"
    "store expired_world = example_store"
    by (simp_all add: expired_world_def)
  have epoch: "generate_epoch scripted_env 2 = 3000"
    by (simp add: scripted_env_def example_env_def)
  have script: "lua_requeue scripted_env = requeue_script"
    by (simp add: scripted_env_def)
  have ts: "py_str (PyInt 3000) = ''3000''" by code_simp
  note pass = requeue_one_script_per_type [of scripted_env expired_world,
                unfolded types, unfolded key start, unfolded epoch script prefix]
  from pass have none: "fst (requeue scripted_env expired_world) = PyNone"
    by blast
  from pass have "trace (snd (requeue scripted_env expired_world))
     = [] @ [Epoch 3000, SMembers ''sharq:active:queue_type'']
       @ map (\<lambda>queue_type. EvalScript LuaRequeue [PyStr ''sharq'', PyStr queue_type]
                [PyStr (py_str (PyInt 3000))]) [''sms'', ''email'']"
    by blast
  then have tr: "trace (snd (requeue scripted_env expired_world))
     = [Epoch 3000, SMembers ''sharq:active:queue_type'',
        EvalScript LuaRequeue [PyStr ''sharq'', PyStr ''sms''] [PyStr ''3000''],
        EvalScript LuaRequeue [PyStr ''sharq'', PyStr ''email''] [PyStr ''3000'']]"
    unfolding ts by simp
  from pass have st: "store (snd (requeue scripted_env expired_world))
     = foldl (\<lambda>st queue_type.
                requeue_script [PyStr ''sharq'', PyStr queue_type]
                  [PyStr (py_str (PyInt 3000))] st)
         example_store [''sms'', ''email'']"
    by blast
  from none tr show ?thesis
    by (simp only: st scripted_requeue_store)
qed



section \<open>Properties of \<^verbatim>\<open>metrics\<close>\<close>

text \<open>The validator of section 4.1 accepts only values that Python reads as true.\<close>

lemma valid_identifier_spec_truthy:
  "is_valid_identifier_spec max_length v \<Longrightarrow> py_truthy v"
  by (cases v) simp_all

text \<open>
  Claim C9. \<^verbatim>\<open>metrics\<close> checks its identifiers before it looks at the mode. A supplied
  \<^verbatim>\<open>queue_id\<close> that is invalid raises the invalid-value error of \<^verbatim>\<open>queue_id\<close>, whatever
  \<^verbatim>\<open>queue_type\<close> is, also when it is omitted; otherwise a supplied \<^verbatim>\<open>queue_type\<close> that is
  invalid raises the invalid-value error of \<^verbatim>\<open>queue_type\<close>. In both cases the world is as
  before the call: nothing was read from the store.
\<close>

theorem metrics_validates_first:
  "(arg_or_default queue_id_arg PyNone \<noteq> PyNone
      \<and> \<not> is_valid_identifier env (arg_or_default queue_id_arg PyNone)
    \<longrightarrow> metrics env queue_type_arg queue_id_arg w
          = (Inl (BadArgumentException ''`queue_id` has an invalid value.''), w))
   \<and> ((arg_or_default queue_id_arg PyNone = PyNone
          \<or> is_valid_identifier env (arg_or_default queue_id_arg PyNone))
      \<and> arg_or_default queue_type_arg PyNone \<noteq> PyNone
      \<and> \<not> is_valid_identifier env (arg_or_default queue_type_arg PyNone)
    \<longrightarrow> metrics env queue_type_arg queue_id_arg w
          = (Inl (BadArgumentException ''`queue_type` has an invalid value.''), w))"
  by (simp add: metrics_def Let_def)

theorem metrics_validates_first_witness:
  "metrics (example_env []) None (Some (PyStr ''q 1'')) example_world
     = (Inl (BadArgumentException ''`queue_id` has an invalid value.''), example_world)
   \<and> metrics (example_env []) (Some (PyStr ''s:m'')) (Some (PyStr ''q1'')) example_world
     = (Inl (BadArgumentException ''`queue_type` has an invalid value.''), example_world)"
proof -
  have a: "arg_or_default (Some (PyStr ''q 1'')) PyNone \<noteq> PyNone
      \<and> \<not> is_valid_identifier (example_env []) (arg_or_default (Some (PyStr ''q 1'')) PyNone)"
    by (simp add: arg_or_default_def example_env_def identifier_char_def)
  have b: "(arg_or_default (Some (PyStr ''q1'')) PyNone = PyNone
          \<or> is_valid_identifier (example_env []) (arg_or_default (Some (PyStr ''q1'')) PyNone))
      \<and> arg_or_default (Some (PyStr ''s:m'')) PyNone \<noteq> PyNone
      \<and> \<not> is_valid_identifier (example_env []) (arg_or_default (Some (PyStr ''s:m'')) PyNone)"
    by (simp add: arg_or_default_def example_env_def identifier_char_def)
  from a b
    metrics_validates_first [of "Some (PyStr ''q 1'')" "example_env []" None example_world]
    metrics_validates_first [of "Some (PyStr ''q1'')" "example_env []" "Some (PyStr ''s:m'')" example_world]
  show ?thesis by blast
qed

text \<open>
  Claim C6. A call of \<^verbatim>\<open>metrics\<close> that supplies a \<^verbatim>\<open>queue_id\<close> and no \<^verbatim>\<open>queue_type\<close> raises
  \<open>BadArgumentException\<close> and leaves the world as it was. The validator is a parameter,
  so the statement assumes of it what section 4.1 says: an identifier it accepts is
  non-empty, that is, true for Python.
\<close>

theorem metrics_queue_id_without_queue_type:
  assumes no_type: "arg_or_default queue_type_arg PyNone = PyNone"
    and supplied: "queue_id \<noteq> PyNone"
    and nonempty: "is_valid_identifier env queue_id \<Longrightarrow> py_truthy queue_id"
  shows "\<exists>m. metrics env queue_type_arg (Some queue_id) w = (Inl (BadArgumentException m), w)"
proof (cases "is_valid_identifier env queue_id")
  case True
  with nonempty have "py_truthy queue_id" by simp
  with True no_type supplied show ?thesis
    by (simp add: metrics_def Let_def arg_or_default_def)
next
  case False
  with no_type supplied show ?thesis
    by (simp add: metrics_def Let_def arg_or_default_def)
qed

theorem metrics_queue_id_without_queue_type_witness:
  "metrics (example_env []) None (Some (PyStr ''q1'')) example_world
     = (Inl (BadArgumentException ''`queue_id` should be accompanied by `queue_type`.''),
        example_world)"
proof -
  have no_type: "arg_or_default None PyNone = PyNone"
    by (simp add: arg_or_default_def)
  have supplied: "PyStr ''q1'' \<noteq> PyNone" by simp
  have nonempty: "is_valid_identifier (example_env []) (PyStr ''q1'') \<Longrightarrow> py_truthy (PyStr ''q1'')"
    by simp
  from metrics_queue_id_without_queue_type [OF no_type supplied nonempty, where w = example_world]
  obtain m where m: "metrics (example_env []) None (Some (PyStr ''q1'')) example_world
                       = (Inl (BadArgumentException m), example_world)" by blast
  have "fst (metrics (example_env []) None (Some (PyStr ''q1'')) example_world)
          = Inl (BadArgumentException ''`queue_id` should be accompanied by `queue_type`.'')"
    by (simp add: metrics_def Let_def arg_or_default_def example_env_def identifier_char_def)
  with m show ?thesis by simp
qed

text \<open>
  Claim C7. For a valid, non-empty \<^verbatim>\<open>queue_type\<close> and no \<^verbatim>\<open>queue_id\<close>, \<^verbatim>\<open>metrics\<close> issues one
  transaction holding the two \<^verbatim>\<open>ZRANGE ... 0 -1\<close> commands on \<open>P:T\<close> and \<open>P:T:active\<close>, and
  replies success with a list \<^verbatim>\<open>queue_ids\<close> that has no duplicates and whose members are
  exactly the members of \<open>P:T\<close> together with the part before the first colon of every
  member of \<open>P:T:active\<close>.
\<close>

theorem metrics_queue_ids:
  assumes valid: "is_valid_identifier env queue_type"
    and nonempty: "py_truthy queue_type"
    and no_id: "arg_or_default queue_id_arg PyNone = PyNone"
  shows "\<exists>ids.
           metrics env (Some queue_type) queue_id_arg w
             = (Inr [''status'' \<mapsto> RStr ''success'', ''queue_ids'' \<mapsto> RList ids],
                w\<lparr>trace := trace w @
                    [Transaction
                       [ZRange (key_prefix env @ '':'' @ py_str queue_type) 0 (- 1),
                        ZRange (key_prefix env @ '':'' @ py_str queue_type @ '':active'') 0 (- 1)]]\<rparr>)
           \<and> distinct ids
           \<and> set ids =
               set (zrange env (key_prefix env @ '':'' @ py_str queue_type) 0 (- 1) (store w))
               \<union> split_colon_first `
                 set (zrange env (key_prefix env @ '':'' @ py_str queue_type @ '':active'') 0 (- 1)
                        (store w))"
proof -
  define ids where
    "ids = py_set_union
             (py_set (zrange env (key_prefix env @ '':'' @ py_str queue_type) 0 (- 1) (store w)))
             (py_set (map split_colon_first
                (zrange env (key_prefix env @ '':'' @ py_str queue_type @ '':active'') 0 (- 1)
                   (store w))))"
  from nonempty have "queue_type \<noteq> PyNone" by auto
  with valid nonempty no_id
  have reply: "metrics env (Some queue_type) queue_id_arg w
             = (Inr [''status'' \<mapsto> RStr ''success'', ''queue_ids'' \<mapsto> RList ids],
                w\<lparr>trace := trace w @
                    [Transaction
                       [ZRange (key_prefix env @ '':'' @ py_str queue_type) 0 (- 1),
                        ZRange (key_prefix env @ '':'' @ py_str queue_type @ '':active'') 0 (- 1)]]\<rparr>)"
    by (simp add: metrics_def metrics_queue_type_def Let_def arg_or_default_def
          redis_read_def ids_def)
  have members: "distinct ids \<and> set ids =
               set (zrange env (key_prefix env @ '':'' @ py_str queue_type) 0 (- 1) (store w))
               \<union> split_colon_first `
                 set (zrange env (key_prefix env @ '':'' @ py_str queue_type @ '':active'') 0 (- 1)
                        (store w))"
    by (simp add: ids_def py_set_union_def py_set_def)
  from reply members show ?thesis by blast
qed

theorem metrics_queue_ids_witness:
  "metrics (example_env []) (Some (PyStr ''sms'')) None example_world
     = (Inr [''status'' \<mapsto> RStr ''success'', ''queue_ids'' \<mapsto> RList [''q2'', ''q1'']],
        example_world\<lparr>trace :=
           [Transaction [ZRange ''sharq:sms'' 0 (- 1), ZRange ''sharq:sms:active'' 0 (- 1)]]\<rparr>)"
proof -
  have valid: "is_valid_identifier (example_env []) (PyStr ''sms'')"
    by (simp add: example_env_def identifier_char_def)
  have nonempty: "py_truthy (PyStr ''sms'')" by simp
  have no_id: "arg_or_default None PyNone = PyNone" by (simp add: arg_or_default_def)
  from metrics_queue_ids [OF valid nonempty no_id, where w = example_world]
  obtain ids where
    r: "metrics (example_env []) (Some (PyStr ''sms'')) None example_world
          = (Inr [''status'' \<mapsto> RStr ''success'', ''queue_ids'' \<mapsto> RList ids],
             example_world\<lparr>trace := trace example_world @
                [Transaction
                   [ZRange (key_prefix (example_env []) @ '':'' @ py_str (PyStr ''sms'')) 0 (- 1),
                    ZRange (key_prefix (example_env []) @ '':'' @ py_str (PyStr ''sms'') @ '':active'')
                      0 (- 1)]]\<rparr>)"
    by blast
  have "fst (metrics (example_env []) (Some (PyStr ''sms'')) None example_world)
          = Inr [''status'' \<mapsto> RStr ''success'', ''queue_ids'' \<mapsto> RList [''q2'', ''q1'']]"
    by (simp add: metrics_def metrics_queue_type_def Let_def arg_or_default_def
          redis_read_def py_set_union_def py_set_def example_env_def identifier_char_def
          example_world_def example_store_def redis_zrange_def split_colon_first_def)
  with r show ?thesis
    by (simp add: example_env_def example_world_def)
qed

section \<open>The default of \<^verbatim>\<open>queue_type\<close>\<close>

text \<open>
  Where \<^verbatim>\<open>metrics\<close> answers at all in its first branch, the reply has no field
  \<^verbatim>\<open>queue_ids\<close>; in its second branch the reply always has one.
\<close>

lemma metrics_global_reply:
  assumes "fst (metrics_global env [''status'' \<mapsto> RStr ''failure''] w) = Inr response"
  shows "response ''queue_ids'' = None"
  using assms
  by (auto simp add: metrics_global_def Let_def split_def
        split: sum.splits prod.splits)

lemma metrics_queue_type_reply:
  "\<exists>response ids.
     fst (metrics_queue_type env queue_type [''status'' \<mapsto> RStr ''failure''] w) = Inr response
     \<and> response ''queue_ids'' = Some (RList ids)"
  by (simp add: metrics_queue_type_def Let_def split_def)

text \<open>
  Claim C8, as amended. In \<^verbatim>\<open>enqueue\<close>, \<^verbatim>\<open>dequeue\<close>, \<^verbatim>\<open>finish\<close> and \<^verbatim>\<open>interval\<close> an omitted
  \<^verbatim>\<open>queue_type\<close> is the string \<^verbatim>\<open>default\<close>. In \<^verbatim>\<open>metrics\<close> an omitted \<^verbatim>\<open>queue_type\<close> is
  \<^verbatim>\<open>None\<close>: a supplied \<^verbatim>\<open>queue_id\<close> that is invalid raises its invalid-value error, any
  other \<^verbatim>\<open>queue_id\<close> that Python reads as true raises the error that asks for a
  \<^verbatim>\<open>queue_type\<close>, and without one the call returns the global statistics. With
  \<^verbatim>\<open>queue_type='default'\<close> and no \<^verbatim>\<open>queue_id\<close> the call returns the queue ids of the type
  \<^verbatim>\<open>default\<close> instead, and whenever \<^verbatim>\<open>default\<close> is a valid identifier the two replies
  differ.
\<close>

theorem default_queue_type:
  "enqueue env payload interval_ms job_id queue_id None
     = enqueue env payload interval_ms job_id queue_id (Some (PyStr ''default''))
   \<and> dequeue env None = dequeue env (Some (PyStr ''default''))
   \<and> finish env job_id queue_id None = finish env job_id queue_id (Some (PyStr ''default''))
   \<and> interval env interval_ms queue_id None
     = interval env interval_ms queue_id (Some (PyStr ''default''))
   \<and> metrics env None queue_id_arg w
     = (if arg_or_default queue_id_arg PyNone \<noteq> PyNone
           \<and> \<not> is_valid_identifier env (arg_or_default queue_id_arg PyNone)
        then (Inl (BadArgumentException ''`queue_id` has an invalid value.''), w)
        else if py_truthy (arg_or_default queue_id_arg PyNone)
        then (Inl (BadArgumentException
                     ''`queue_id` should be accompanied by `queue_type`.''), w)
        else metrics_global env [''status'' \<mapsto> RStr ''failure''] w)
   \<and> metrics env (Some (PyStr ''default'')) None w
     = (if is_valid_identifier env (PyStr ''default'')
        then metrics_queue_type env (PyStr ''default'') [''status'' \<mapsto> RStr ''failure''] w
        else (Inl (BadArgumentException ''`queue_type` has an invalid value.''), w))
   \<and> (is_valid_identifier env (PyStr ''default'')
      \<longrightarrow> fst (metrics env None None w) \<noteq> fst (metrics env (Some (PyStr ''default'')) None w))"
proof -
  have same: "enqueue env payload interval_ms job_id queue_id None
     = enqueue env payload interval_ms job_id queue_id (Some (PyStr ''default''))
   \<and> dequeue env None = dequeue env (Some (PyStr ''default''))
   \<and> finish env job_id queue_id None = finish env job_id queue_id (Some (PyStr ''default''))
   \<and> interval env interval_ms queue_id None
     = interval env interval_ms queue_id (Some (PyStr ''default''))"
    by (simp add: fun_eq_iff enqueue_def dequeue_def finish_def interval_def arg_or_default_def)
  have omitted: "metrics env None queue_id_arg w
     = (if arg_or_default queue_id_arg PyNone \<noteq> PyNone
           \<and> \<not> is_valid_identifier env (arg_or_default queue_id_arg PyNone)
        then (Inl (BadArgumentException ''`queue_id` has an invalid value.''), w)
        else if py_truthy (arg_or_default queue_id_arg PyNone)
        then (Inl (BadArgumentException
                     ''`queue_id` should be accompanied by `queue_type`.''), w)
        else metrics_global env [''status'' \<mapsto> RStr ''failure''] w)" for queue_id_arg
    by (simp add: metrics_def Let_def arg_or_default_def)
  have named: "metrics env (Some (PyStr ''default'')) None w
     = (if is_valid_identifier env (PyStr ''default'')
        then metrics_queue_type env (PyStr ''default'') [''status'' \<mapsto> RStr ''failure''] w
        else (Inl (BadArgumentException ''`queue_type` has an invalid value.''), w))"
    by (simp add: metrics_def Let_def arg_or_default_def)
  have differ: "fst (metrics env None None w) \<noteq> fst (metrics env (Some (PyStr ''default'')) None w)"
    if valid: "is_valid_identifier env (PyStr ''default'')"
  proof
    assume eq: "fst (metrics env None None w) = fst (metrics env (Some (PyStr ''default'')) None w)"
    from metrics_queue_type_reply [of env "PyStr ''default''" w]
    obtain response ids where
      r: "fst (metrics_queue_type env (PyStr ''default'') [''status'' \<mapsto> RStr ''failure''] w)
            = Inr response"
      and ids: "response ''queue_ids'' = Some (RList ids)"
      by blast
    from eq valid r have "fst (metrics_global env [''status'' \<mapsto> RStr ''failure''] w) = Inr response"
      by (simp add: omitted [of None] named arg_or_default_def)
    from metrics_global_reply [OF this] ids show False by simp
  qed
  from same omitted [of queue_id_arg] named differ show ?thesis by blast
qed

theorem default_queue_type_witness:
  "fst (metrics (example_env []) None None example_world)
     \<noteq> fst (metrics (example_env []) (Some (PyStr ''default'')) None example_world)
   \<and> metrics (example_env []) None (Some (PyStr ''q1'')) example_world
     = (Inl (BadArgumentException ''`queue_id` should be accompanied by `queue_type`.''),
        example_world)"
proof -
  have valid: "is_valid_identifier (example_env []) (PyStr ''default'')"
    by (simp add: example_env_def identifier_char_def)
  have valid_id: "is_valid_identifier (example_env []) (PyStr ''q1'')"
    by (simp add: example_env_def identifier_char_def)
  from default_queue_type [of "example_env []" _ _ _ _ None example_world] valid
  have a: "fst (metrics (example_env []) None None example_world)
     \<noteq> fst (metrics (example_env []) (Some (PyStr ''default'')) None example_world)"
    by blast
  from default_queue_type [of "example_env []" _ _ _ _ "Some (PyStr ''q1'')" example_world]
  have "metrics (example_env []) None (Some (PyStr ''q1'')) example_world
     = (if arg_or_default (Some (PyStr ''q1'')) PyNone \<noteq> PyNone
           \<and> \<not> is_valid_identifier (example_env []) (arg_or_default (Some (PyStr ''q1'')) PyNone)
        then (Inl (BadArgumentException ''`queue_id` has an invalid value.''), example_world)
        else if py_truthy (arg_or_default (Some (PyStr ''q1'')) PyNone)
        then (Inl (BadArgumentException
                     ''`queue_id` should be accompanied by `queue_type`.''), example_world)
        else metrics_global (example_env []) [''status'' \<mapsto> RStr ''failure''] example_world)"
    by blast
  with valid_id have b: "metrics (example_env []) None (Some (PyStr ''q1'')) example_world
     = (Inl (BadArgumentException ''`queue_id` should be accompanied by `queue_type`.''),
        example_world)"
    by (simp add: arg_or_default_def)
  from a b show ?thesis by simp
qed

text \<open>
  The claim as stated fails for \<^verbatim>\<open>metrics\<close>: without arguments it returns the global
  statistics, and with \<^verbatim>\<open>queue_type='default'\<close> the queue ids of the type \<^verbatim>\<open>default\<close>.
\<close>

theorem default_queue_type_counterexample:
  "fst (metrics (example_env []) None None example_world)
     = Inr [''status'' \<mapsto> RStr ''success'', ''queue_types'' \<mapsto> RList [''email'', ''sms''],
            ''enqueue_counts'' \<mapsto> RDict Map.empty, ''dequeue_counts'' \<mapsto> RDict Map.empty]
   \<and> fst (metrics (example_env []) (Some (PyStr ''default'')) None example_world)
     = Inr [''status'' \<mapsto> RStr ''success'', ''queue_ids'' \<mapsto> RList []]
   \<and> fst (metrics (example_env []) None None example_world)
     \<noteq> fst (metrics (example_env []) (Some (PyStr ''default'')) None example_world)"
proof -
  have a: "fst (metrics (example_env []) None None example_world)
      = Inr [''status'' \<mapsto> RStr ''success'', ''queue_types'' \<mapsto> RList [''email'', ''sms''],
             ''enqueue_counts'' \<mapsto> RDict Map.empty, ''dequeue_counts'' \<mapsto> RDict Map.empty]"
    by (simp add: metrics_def metrics_global_def Let_def arg_or_default_def split_def
          redis_read_def invoke_def read_timestamp_def py_set_union_def py_set_def
          example_env_def example_world_def example_store_def redis_smembers_def
          decode_metrics_def xrange_step2_def)
  have b: "fst (metrics (example_env []) (Some (PyStr ''default'')) None example_world)
      = Inr [''status'' \<mapsto> RStr ''success'', ''queue_ids'' \<mapsto> RList []]"
    by (simp add: metrics_def metrics_queue_type_def Let_def arg_or_default_def
          redis_read_def py_set_union_def py_set_def example_env_def identifier_char_def
          example_world_def example_store_def redis_zrange_def split_colon_first_def)
  have "[''status'' \<mapsto> RStr ''success'', ''queue_types'' \<mapsto> RList [''email'', ''sms''],
         ''enqueue_counts'' \<mapsto> RDict Map.empty,
         ''dequeue_counts'' \<mapsto> (RDict Map.empty :: pyval rval)] ''queue_ids''
        \<noteq> [''status'' \<mapsto> RStr ''success'', ''queue_ids'' \<mapsto> RList []] ''queue_ids''"
    by simp
  then have "[''status'' \<mapsto> RStr ''success'', ''queue_types'' \<mapsto> RList [''email'', ''sms''],
         ''enqueue_counts'' \<mapsto> RDict Map.empty,
         ''dequeue_counts'' \<mapsto> (RDict Map.empty :: pyval rval)]
        \<noteq> [''status'' \<mapsto> RStr ''success'', ''queue_ids'' \<mapsto> RList []]"
    by metis
  with a b show ?thesis by simp
qed

end
